theory Spec2Isabelle
  imports Main
begin

section \<open>Values and rows\<close>

text \<open>
  The backend is JavaScript over a hosted Postgres. A column or request-body field that
  may be \<open>null\<close> (or \<open>undefined\<close>) is a \<open>string option\<close>; strict equality
  \<open>===\<close> on such values is equality of the options. A condition \<open>if (x)\<close> on such a
  value is JavaScript truthiness: false for \<open>null\<close> and for the empty string.
\<close>

type_synonym ident = string

definition truthy :: "string option \<Rightarrow> bool" where
  "truthy v = (case v of None \<Rightarrow> False | Some s \<Rightarrow> s \<noteq> [])"

text \<open>\<open>x || null\<close>\<close>

definition or_null :: "string option \<Rightarrow> string option" where
  "or_null v = (if truthy v then v else None)"

text \<open>A value inside a template literal: \<open>null\<close> prints as the word null.\<close>

definition tmpl :: "string option \<Rightarrow> string" where
  "tmpl v = (case v of None \<Rightarrow> ''null'' | Some s \<Rightarrow> s)"

text \<open>A row of \<open>teacher_schedule_slots\<close>.\<close>

record teacher_slot =
  ts_id :: ident
  ts_teacher_id :: "ident option"
  ts_course_id :: "ident option"
  ts_day_of_week :: "string option"
  ts_start_time :: "string option"
  ts_end_time :: "string option"
  ts_location :: "string option"
  ts_notes :: "string option"

text \<open>A row of \<open>course_schedule_slots\<close>.\<close>

record course_slot =
  cs_id :: ident
  cs_course_id :: "ident option"
  cs_teacher_id :: "ident option"
  cs_day_of_week :: "string option"
  cs_start_time :: "string option"
  cs_end_time :: "string option"
  cs_location :: "string option"
  cs_notes :: "string option"

text \<open>The \<open>oldValues\<close> object handed to the synchronizer.\<close>

record old_values =
  ov_day_of_week :: "string option"
  ov_start_time :: "string option"
  ov_end_time :: "string option"

datatype status = Pending | Approved | Declined

text \<open>A row of \<open>schedule_change_requests\<close>.\<close>

record request =
  rq_id :: ident
  rq_slot_id :: ident
  rq_teacher_id :: "ident option"
  rq_course_id :: "ident option"
  rq_current_day_of_week :: "string option"
  rq_current_start_time :: "string option"
  rq_current_end_time :: "string option"
  rq_requested_day_of_week :: "string option"
  rq_requested_start_time :: "string option"
  rq_requested_end_time :: "string option"
  rq_reason :: "string option"
  rq_status :: status
  rq_approved_by :: "ident option"
  rq_approved_at :: "string option"
  rq_declined_by :: "ident option"
  rq_declined_at :: "string option"
  rq_declined_reason :: "string option"

text \<open>A row inserted into \<open>notifications\<close>.\<close>

record notification =
  nt_recipient_id :: "ident option"
  nt_sender_id :: "ident option"
  nt_title :: string
  nt_message :: string
  nt_channels :: "string list"
  nt_audience_scope :: string
  nt_course_id :: "ident option"

record course =
  co_id :: ident
  co_name :: "string option"

text \<open>A row of \<open>course_students\<close>.\<close>

record enrollment =
  en_course_id :: "ident option"
  en_student_id :: "ident option"

section \<open>The store, the socket server and the environment\<close>

text \<open>The payload of an update of a course slot (\<open>courseSlotUpdate\<close>).\<close>

record course_slot_update =
  cu_day_of_week :: "string option"
  cu_start_time :: "string option"
  cu_end_time :: "string option"
  cu_location :: "string option"
  cu_notes :: "string option"

text \<open>
  The payload of an update of a teacher slot. A key that the object does not have is
  \<open>None\<close>; for the nullable columns the value written is itself an option.
\<close>

record teacher_slot_update =
  tu_day_of_week :: "string option"
  tu_start_time :: "string option"
  tu_end_time :: "string option"
  tu_course_id :: "ident option option"
  tu_location :: "string option option"
  tu_notes :: "string option option"

text \<open>
  Every write statement sent to the store is recorded in a journal, in order, whether or
  not the store then fails: "the handler issues a write" is a statement about the journal.
\<close>

datatype stmt =
    UpdateTeacherSlotStmt ident teacher_slot_update
  | UpdateCourseSlotStmt ident course_slot_update
  | InsertCourseSlotStmt course_slot
  | MarkApprovedStmt ident "ident option" string
  | MarkDeclinedStmt ident "ident option" string "string option"
  | InsertRequestStmt request
  | InsertNotificationsStmt "notification list"

text \<open>Events published through the socket server (\<open>io.emit\<close>).\<close>

datatype event =
    ScheduleUpdated "ident option" ident "ident option"
  | TeacherNotificationsRefresh "ident option"
  | AdminNotificationsRefresh string "ident option"
  | StudentTimetableRefresh "ident option"
  | StudentNotificationsRefresh "ident option"
  | AdminTimetableRefresh "ident option" ident

record world =
  teacher_schedule_slots :: "teacher_slot list"
  course_schedule_slots :: "course_slot list"
  schedule_change_requests :: "request list"
  notifications :: "notification list"
  courses :: "course list"
  course_students :: "enrollment list"
  emitted :: "event list"
  journal :: "stmt list"

text \<open>
  The store calls of the handlers. A call of the Supabase client never throws: it returns
  \<open>{ data, error }\<close>. Which calls come back with an error is up to the environment.
\<close>

datatype call =
    SelectRequest
  | UpdateTeacherSlot
  | SelectCourseSlots
  | UpdateCourseSlot
  | InsertCourseSlot
  | UpdateRequest
  | SelectCourseName
  | InsertTeacherNotification
  | SelectEnrolledStudents
  | InsertStudentNotifications
  | SelectTeacherSlot
  | SelectCourse
  | InsertRequest

datatype store_error = StorageError

record env =
  fails :: "call \<Rightarrow> bool"
  io_registered :: bool
  now_iso :: string
  generated_id :: ident

text \<open>\<open>const io = req.app.get("io"); if (io) { io.emit(...) }\<close>\<close>

definition emit :: "env \<Rightarrow> event list \<Rightarrow> world \<Rightarrow> world" where
  "emit e evs w = (if io_registered e then w\<lparr>emitted := emitted w @ evs\<rparr> else w)"

definition log_stmt :: "stmt \<Rightarrow> world \<Rightarrow> world" where
  "log_stmt s w = w\<lparr>journal := journal w @ [s]\<rparr>"

text \<open>The statements issued between two worlds.\<close>

definition issued :: "world \<Rightarrow> world \<Rightarrow> stmt list" where
  "issued w w' = drop (length (journal w)) (journal w')"

subsection \<open>Course slots\<close>

text \<open>
  \<open>from("course_schedule_slots").select(...).eq("course_id", c).eq("teacher_id", t)\<close>
\<close>

definition candidates :: "ident option \<Rightarrow> ident option \<Rightarrow> world \<Rightarrow> course_slot list" where
  "candidates c t w =
     filter (\<lambda>s. cs_course_id s = c \<and> cs_teacher_id s = t) (course_schedule_slots w)"

definition select_course_slots ::
  "env \<Rightarrow> ident option \<Rightarrow> ident option \<Rightarrow> world \<Rightarrow> store_error + course_slot list" where
  "select_course_slots e c t w =
     (if fails e SelectCourseSlots then Inl StorageError else Inr (candidates c t w))"

definition apply_course_update :: "course_slot_update \<Rightarrow> course_slot \<Rightarrow> course_slot" where
  "apply_course_update u s =
     s\<lparr>cs_day_of_week := cu_day_of_week u, cs_start_time := cu_start_time u,
       cs_end_time := cu_end_time u, cs_location := cu_location u, cs_notes := cu_notes u\<rparr>"

text \<open>\<open>from("course_schedule_slots").update(u).eq("id", i).select(...)\<close>\<close>

definition update_course_slot ::
  "env \<Rightarrow> ident \<Rightarrow> course_slot_update \<Rightarrow> world \<Rightarrow> (store_error + course_slot list) \<times> world" where
  "update_course_slot e i u w =
     (let w1 = log_stmt (UpdateCourseSlotStmt i u) w in
      if fails e UpdateCourseSlot then (Inl StorageError, w1)
      else (Inr (map (apply_course_update u) (filter (\<lambda>s. cs_id s = i) (course_schedule_slots w))),
            w1\<lparr>course_schedule_slots :=
                  map (\<lambda>s. if cs_id s = i then apply_course_update u s else s)
                    (course_schedule_slots w)\<rparr>))"

text \<open>
  \<open>from("course_schedule_slots").insert(row).select(...).single()\<close>; the store assigns
  the identifier of the new row.
\<close>

definition insert_course_slot ::
  "env \<Rightarrow> course_slot \<Rightarrow> world \<Rightarrow> (store_error + course_slot) \<times> world" where
  "insert_course_slot e row w =
     (let w1 = log_stmt (InsertCourseSlotStmt row) w in
      if fails e InsertCourseSlot then (Inl StorageError, w1)
      else (Inr row, w1\<lparr>course_schedule_slots := course_schedule_slots w @ [row]\<rparr>))"

section \<open>The slot synchronizer\<close>

text \<open>\<open>s.day_of_week === d && s.start_time === a && s.end_time === b\<close>\<close>

definition same_slot_time ::
  "string option \<Rightarrow> string option \<Rightarrow> string option \<Rightarrow> course_slot \<Rightarrow> bool" where
  "same_slot_time d a b s =
     (cs_day_of_week s = d \<and> cs_start_time s = a \<and> cs_end_time s = b)"

definition same_day :: "string option \<Rightarrow> course_slot \<Rightarrow> bool" where
  "same_day d s = (cs_day_of_week s = d)"

text \<open>
  \<open>oldValues && oldValues.day_of_week && oldValues.start_time && oldValues.end_time\<close>
\<close>

definition old_complete :: "old_values option \<Rightarrow> bool" where
  "old_complete oldValues =
     (case oldValues of
        None \<Rightarrow> False
      | Some ov \<Rightarrow> truthy (ov_day_of_week ov) \<and> truthy (ov_start_time ov) \<and> truthy (ov_end_time ov))"

text \<open>
  The choice of \<open>courseSlotToUpdate\<close>: a row to update, none, or the early return of the
  branch without old values ("Course slot with new values already exists, skipping").
\<close>

datatype choice = Target course_slot | NoTarget | AlreadyThere

definition choose_with_old :: "old_values \<Rightarrow> course_slot list \<Rightarrow> choice" where
  "choose_with_old ov allCourseSlots =
     (if allCourseSlots \<noteq> [] then
        (case find (same_slot_time (ov_day_of_week ov) (ov_start_time ov) (ov_end_time ov))
                allCourseSlots of
           Some exactMatch \<Rightarrow> Target exactMatch
         | None \<Rightarrow>
             (case find (same_day (ov_day_of_week ov)) allCourseSlots of
                Some dayMatch \<Rightarrow>
                  if length allCourseSlots = 1 then Target dayMatch else NoTarget
              | None \<Rightarrow>
                  if length allCourseSlots = 1 then Target (allCourseSlots ! 0) else NoTarget))
      else NoTarget)"

definition choose_without_old :: "teacher_slot \<Rightarrow> course_slot list \<Rightarrow> choice" where
  "choose_without_old teacherSlot allCourseSlots =
     (if allCourseSlots \<noteq> [] then
        (case find (same_slot_time (ts_day_of_week teacherSlot) (ts_start_time teacherSlot)
                     (ts_end_time teacherSlot)) allCourseSlots of
           Some matchingNew \<Rightarrow> AlreadyThere
         | None \<Rightarrow> if length allCourseSlots = 1 then Target (allCourseSlots ! 0) else NoTarget)
      else NoTarget)"

definition choose_target :: "teacher_slot \<Rightarrow> old_values option \<Rightarrow> course_slot list \<Rightarrow> choice" where
  "choose_target teacherSlot oldValues allCourseSlots =
     (case oldValues of
        Some ov \<Rightarrow>
          if old_complete oldValues then choose_with_old ov allCourseSlots
          else choose_without_old teacherSlot allCourseSlots
      | None \<Rightarrow> choose_without_old teacherSlot allCourseSlots)"

definition courseSlotUpdate :: "teacher_slot \<Rightarrow> course_slot_update" where
  "courseSlotUpdate teacherSlot =
     \<lparr>cu_day_of_week = ts_day_of_week teacherSlot,
      cu_start_time = ts_start_time teacherSlot,
      cu_end_time = ts_end_time teacherSlot,
      cu_location = or_null (ts_location teacherSlot),
      cu_notes = or_null (ts_notes teacherSlot)\<rparr>"

text \<open>The row of the insert; its identifier is the one the store generates.\<close>

definition newCourseSlot :: "env \<Rightarrow> teacher_slot \<Rightarrow> course_slot" where
  "newCourseSlot e teacherSlot =
     \<lparr>cs_id = generated_id e,
      cs_course_id = ts_course_id teacherSlot,
      cs_teacher_id = ts_teacher_id teacherSlot,
      cs_day_of_week = ts_day_of_week teacherSlot,
      cs_start_time = ts_start_time teacherSlot,
      cs_end_time = ts_end_time teacherSlot,
      cs_location = or_null (ts_location teacherSlot),
      cs_notes = or_null (ts_notes teacherSlot)\<rparr>"

text \<open>
  \<open>syncTeacherSlotToCourseSlot(teacherSlot, oldValues = null)\<close>. It returns nothing and
  catches whatever is thrown inside; its effect is the new world.
\<close>

definition syncTeacherSlotToCourseSlot ::
  "env \<Rightarrow> teacher_slot \<Rightarrow> old_values option \<Rightarrow> world \<Rightarrow> world" where
  "syncTeacherSlotToCourseSlot e teacherSlot oldValues w =
     (if \<not> truthy (ts_course_id teacherSlot) \<or> \<not> truthy (ts_teacher_id teacherSlot) then w
      else
        (case select_course_slots e (ts_course_id teacherSlot) (ts_teacher_id teacherSlot) w of
           Inl findAllError \<Rightarrow> w
         | Inr allCourseSlots \<Rightarrow>
             (case choose_target teacherSlot oldValues allCourseSlots of
                AlreadyThere \<Rightarrow> w
              | Target courseSlotToUpdate \<Rightarrow>
                  snd (update_course_slot e (cs_id courseSlotToUpdate)
                         (courseSlotUpdate teacherSlot) w)
              | NoTarget \<Rightarrow>
                  if allCourseSlots \<noteq> [] \<and>
                     find (same_slot_time (ts_day_of_week teacherSlot) (ts_start_time teacherSlot)
                             (ts_end_time teacherSlot)) allCourseSlots \<noteq> None
                  then w
                  else snd (insert_course_slot e (newCourseSlot e teacherSlot) w))))"

section \<open>The other store calls\<close>

text \<open>
  The handlers are modelled behind the middleware (\<open>protect\<close>, \<open>requireAdminRole\<close>) and
  with the Supabase client of \<open>config/supabaseClient.js\<close> configured, so that
  \<open>guardSupabase\<close> passes.
\<close>

definition apply_teacher_update :: "teacher_slot_update \<Rightarrow> teacher_slot \<Rightarrow> teacher_slot" where
  "apply_teacher_update u s =
     s\<lparr>ts_day_of_week := (case tu_day_of_week u of None \<Rightarrow> ts_day_of_week s | Some d \<Rightarrow> Some d),
       ts_start_time := (case tu_start_time u of None \<Rightarrow> ts_start_time s | Some a \<Rightarrow> Some a),
       ts_end_time := (case tu_end_time u of None \<Rightarrow> ts_end_time s | Some b \<Rightarrow> Some b),
       ts_course_id := (case tu_course_id u of None \<Rightarrow> ts_course_id s | Some c \<Rightarrow> c),
       ts_location := (case tu_location u of None \<Rightarrow> ts_location s | Some l \<Rightarrow> l),
       ts_notes := (case tu_notes u of None \<Rightarrow> ts_notes s | Some n \<Rightarrow> n)\<rparr>"

text \<open>
  \<open>from("teacher_schedule_slots").update(u).eq("id", i).select(...).single()\<close>:
  \<open>single()\<close> is an error unless exactly one row comes back, and then nothing is written.
\<close>

definition update_teacher_slot ::
  "env \<Rightarrow> ident \<Rightarrow> teacher_slot_update \<Rightarrow> world \<Rightarrow> (store_error + teacher_slot) \<times> world" where
  "update_teacher_slot e i u w =
     (let w1 = log_stmt (UpdateTeacherSlotStmt i u) w in
      if fails e UpdateTeacherSlot then (Inl StorageError, w1)
      else
        (case filter (\<lambda>s. ts_id s = i) (teacher_schedule_slots w) of
           [s] \<Rightarrow>
             (Inr (apply_teacher_update u s),
              w1\<lparr>teacher_schedule_slots :=
                    map (\<lambda>s. if ts_id s = i then apply_teacher_update u s else s)
                      (teacher_schedule_slots w)\<rparr>)
         | _ \<Rightarrow> (Inl StorageError, w1)))"

text \<open>\<open>maybeSingle()\<close>: no row is \<open>null\<close>, one row is the row, more rows are an error.\<close>

definition maybeSingle :: "'a list \<Rightarrow> store_error + 'a option" where
  "maybeSingle rows =
     (case rows of [] \<Rightarrow> Inr None | [r] \<Rightarrow> Inr (Some r) | _ \<Rightarrow> Inl StorageError)"

text \<open>
  \<open>from("schedule_change_requests").select("*").eq("id", i).eq("status", "pending")
  .maybeSingle()\<close>
\<close>

definition select_pending_request :: "env \<Rightarrow> ident \<Rightarrow> world \<Rightarrow> store_error + request option" where
  "select_pending_request e i w =
     (if fails e SelectRequest then Inl StorageError
      else maybeSingle
             (filter (\<lambda>r. rq_id r = i \<and> rq_status r = Pending) (schedule_change_requests w)))"

text \<open>
  \<open>from("schedule_change_requests").update({ status: "approved", approved_by,
  approved_at }).eq("id", i)\<close>; the handler does not look at the result.
\<close>

definition mark_approved :: "env \<Rightarrow> ident \<Rightarrow> ident \<Rightarrow> world \<Rightarrow> world" where
  "mark_approved e i adminId w =
     (let w1 = log_stmt (MarkApprovedStmt i (Some adminId) (now_iso e)) w in
      if fails e UpdateRequest then w1
      else w1\<lparr>schedule_change_requests :=
                 map (\<lambda>r. if rq_id r = i
                           then r\<lparr>rq_status := Approved, rq_approved_by := Some adminId,
                                  rq_approved_at := Some (now_iso e)\<rparr>
                           else r)
                   (schedule_change_requests w)\<rparr>)"

definition mark_declined :: "env \<Rightarrow> ident \<Rightarrow> ident \<Rightarrow> string option \<Rightarrow> world \<Rightarrow> world" where
  "mark_declined e i adminId declineReason w =
     (let w1 = log_stmt (MarkDeclinedStmt i (Some adminId) (now_iso e) (or_null declineReason)) w in
      if fails e UpdateRequest then w1
      else w1\<lparr>schedule_change_requests :=
                 map (\<lambda>r. if rq_id r = i
                           then r\<lparr>rq_status := Declined, rq_declined_by := Some adminId,
                                  rq_declined_at := Some (now_iso e),
                                  rq_declined_reason := or_null declineReason\<rparr>
                           else r)
                   (schedule_change_requests w)\<rparr>)"

text \<open>\<open>from("notifications").insert(rows)\<close>, at the call site \<open>c\<close>.\<close>

definition insert_notifications ::
  "env \<Rightarrow> call \<Rightarrow> notification list \<Rightarrow> world \<Rightarrow> (store_error + unit) \<times> world" where
  "insert_notifications e c rows w =
     (let w1 = log_stmt (InsertNotificationsStmt rows) w in
      if fails e c then (Inl StorageError, w1)
      else (Inr (), w1\<lparr>notifications := notifications w @ rows\<rparr>))"

text \<open>\<open>from("courses").select(...).eq("id", i).maybeSingle()\<close>, at the call site \<open>c\<close>.\<close>

definition select_course :: "env \<Rightarrow> call \<Rightarrow> ident option \<Rightarrow> world \<Rightarrow> store_error + course option" where
  "select_course e c i w =
     (if fails e c then Inl StorageError
      else maybeSingle (filter (\<lambda>r. Some (co_id r) = i) (courses w)))"

text \<open>\<open>from("course_students").select("student_id").eq("course_id", i)\<close>\<close>

definition select_enrolled :: "env \<Rightarrow> ident option \<Rightarrow> world \<Rightarrow> store_error + enrollment list" where
  "select_enrolled e i w =
     (if fails e SelectEnrolledStudents then Inl StorageError
      else Inr (filter (\<lambda>r. en_course_id r = i) (course_students w)))"

text \<open>\<open>from("teacher_schedule_slots").select("*").eq("id", i).maybeSingle()\<close>\<close>

definition select_teacher_slot :: "env \<Rightarrow> ident \<Rightarrow> world \<Rightarrow> store_error + teacher_slot option" where
  "select_teacher_slot e i w =
     (if fails e SelectTeacherSlot then Inl StorageError
      else maybeSingle (filter (\<lambda>s. ts_id s = i) (teacher_schedule_slots w)))"

text \<open>
  \<open>from("teacher_schedule_slots").select(...).eq("id", i).eq("teacher_id", t)
  .maybeSingle()\<close>
\<close>

definition select_owned_slot ::
  "env \<Rightarrow> ident \<Rightarrow> ident \<Rightarrow> world \<Rightarrow> store_error + teacher_slot option" where
  "select_owned_slot e i t w =
     (if fails e SelectTeacherSlot then Inl StorageError
      else maybeSingle
             (filter (\<lambda>s. ts_id s = i \<and> ts_teacher_id s = Some t) (teacher_schedule_slots w)))"

text \<open>\<open>from("schedule_change_requests").insert(requestData).select(...).single()\<close>\<close>

definition insert_request :: "env \<Rightarrow> request \<Rightarrow> world \<Rightarrow> (store_error + request) \<times> world" where
  "insert_request e row w =
     (let w1 = log_stmt (InsertRequestStmt row) w in
      if fails e InsertRequest then (Inl StorageError, w1)
      else (Inr row, w1\<lparr>schedule_change_requests := schedule_change_requests w @ [row]\<rparr>))"

section \<open>Responses\<close>

record response =
  res_status :: nat
  res_message :: string
  res_slot :: "teacher_slot option"

definition respond :: "nat \<Rightarrow> string \<Rightarrow> response" where
  "respond code msg = \<lparr>res_status = code, res_message = msg, res_slot = None\<rparr>"

definition respond_slot :: "string \<Rightarrow> teacher_slot \<Rightarrow> response" where
  "respond_slot msg s = \<lparr>res_status = 200, res_message = msg, res_slot = Some s\<rparr>"

definition not_found_or_processed :: response where
  "not_found_or_processed = respond 404 ''Schedule change request not found or already processed''"

definition server_error :: response where
  "server_error = respond 500 ''Server error''"

section \<open>Approve\<close>

text \<open>
  The object \<open>updates\<close> of the approve handler: a key for each requested field that is
  truthy.
\<close>

definition requested_updates :: "request \<Rightarrow> teacher_slot_update" where
  "requested_updates request =
     \<lparr>tu_day_of_week =
        (if truthy (rq_requested_day_of_week request) then rq_requested_day_of_week request else None),
      tu_start_time =
        (if truthy (rq_requested_start_time request) then rq_requested_start_time request else None),
      tu_end_time =
        (if truthy (rq_requested_end_time request) then rq_requested_end_time request else None),
      tu_course_id = None, tu_location = None, tu_notes = None\<rparr>"

text \<open>\<open>Object.keys(updates).length > 0\<close>\<close>

definition has_keys :: "teacher_slot_update \<Rightarrow> bool" where
  "has_keys u =
     (tu_day_of_week u \<noteq> None \<or> tu_start_time u \<noteq> None \<or> tu_end_time u \<noteq> None \<or>
      tu_course_id u \<noteq> None \<or> tu_location u \<noteq> None \<or> tu_notes u \<noteq> None)"

definition request_old_values :: "request \<Rightarrow> old_values" where
  "request_old_values request =
     \<lparr>ov_day_of_week = rq_current_day_of_week request,
      ov_start_time = rq_current_start_time request,
      ov_end_time = rq_current_end_time request\<rparr>"

text \<open>\<open>`${day} ${start}-${end}`\<close>\<close>

definition schedule_text :: "string option \<Rightarrow> string option \<Rightarrow> string option \<Rightarrow> string" where
  "schedule_text d a b = tmpl d @ '' '' @ tmpl a @ ''-'' @ tmpl b"

definition teacher_notification :: "ident \<Rightarrow> request \<Rightarrow> string \<Rightarrow> string \<Rightarrow> notification" where
  "teacher_notification adminId request title msg =
     \<lparr>nt_recipient_id = rq_teacher_id request, nt_sender_id = Some adminId,
      nt_title = title, nt_message = msg, nt_channels = [''in_app''],
      nt_audience_scope = ''custom'', nt_course_id = rq_course_id request\<rparr>"

definition approved_message :: "request \<Rightarrow> teacher_slot \<Rightarrow> string" where
  "approved_message request updatedSlot =
     ''Your schedule change request has been approved. Your slot has been updated from '' @
     schedule_text (rq_current_day_of_week request) (rq_current_start_time request)
       (rq_current_end_time request) @ '' to '' @
     schedule_text (ts_day_of_week updatedSlot) (ts_start_time updatedSlot)
       (ts_end_time updatedSlot) @ ''.''"

definition student_notification ::
  "ident \<Rightarrow> request \<Rightarrow> teacher_slot \<Rightarrow> string option \<Rightarrow> ident option \<Rightarrow> notification" where
  "student_notification adminId request updatedSlot courseName studentId =
     \<lparr>nt_recipient_id = studentId, nt_sender_id = Some adminId,
      nt_title = ''Class Schedule Changed'',
      nt_message =
        ''Your class '' @ [CHR 0x22] @ tmpl courseName @ [CHR 0x22] @
        '' schedule has been rescheduled from '' @
        schedule_text (rq_current_day_of_week request) (rq_current_start_time request)
          (rq_current_end_time request) @ '' to '' @
        schedule_text (ts_day_of_week updatedSlot) (ts_start_time updatedSlot)
          (ts_end_time updatedSlot) @
        ''. Please update your calendar accordingly.'',
      nt_channels = [''in_app''], nt_audience_scope = ''course'',
      nt_course_id = rq_course_id request\<rparr>"

text \<open>"Get course name for notification"\<close>

definition course_name :: "env \<Rightarrow> request \<Rightarrow> world \<Rightarrow> string option" where
  "course_name e request w =
     (if truthy (rq_course_id request) then
        (case select_course e SelectCourseName (rq_course_id request) w of
           Inr (Some courseData) \<Rightarrow> co_name courseData
         | _ \<Rightarrow> Some ''the course'')
      else Some ''the course'')"

text \<open>"Notify all students enrolled in this course about the schedule change"\<close>

definition notify_students ::
  "env \<Rightarrow> ident \<Rightarrow> request \<Rightarrow> teacher_slot \<Rightarrow> string option \<Rightarrow> world \<Rightarrow> world" where
  "notify_students e adminId request updatedSlot courseName w =
     (if truthy (rq_course_id request) then
        (case select_enrolled e (rq_course_id request) w of
           Inl enrollError \<Rightarrow> w
         | Inr enrolledStudents \<Rightarrow>
             if enrolledStudents \<noteq> [] then
               (let studentIds = filter truthy (map en_student_id enrolledStudents) in
                snd (insert_notifications e InsertStudentNotifications
                       (map (student_notification adminId request updatedSlot courseName) studentIds)
                       w))
             else w)
      else w)"

definition approve_events :: "request \<Rightarrow> event list" where
  "approve_events request =
     [ScheduleUpdated (rq_teacher_id request) (rq_slot_id request) (rq_course_id request),
      TeacherNotificationsRefresh (rq_teacher_id request),
      AdminNotificationsRefresh ''schedule_change_approved'' None] @
     (if truthy (rq_course_id request)
      then [StudentTimetableRefresh (rq_course_id request),
            StudentNotificationsRefresh (rq_course_id request)]
      else [])"

text \<open>The branch \<open>Object.keys(updates).length > 0\<close> of the approve handler.\<close>

definition approve_with_updates ::
  "env \<Rightarrow> ident \<Rightarrow> ident \<Rightarrow> request \<Rightarrow> teacher_slot_update \<Rightarrow> world \<Rightarrow> response \<times> world" where
  "approve_with_updates e requestId adminId request updates w =
     (case update_teacher_slot e (rq_slot_id request) updates w of
        (Inl updateError, w1) \<Rightarrow> (server_error, w1)
      | (Inr updatedSlot, w1) \<Rightarrow>
          (let w2 = syncTeacherSlotToCourseSlot e updatedSlot (Some (request_old_values request)) w1;
               w3 = mark_approved e requestId adminId w2;
               courseName = course_name e request w3;
               w4 = snd (insert_notifications e InsertTeacherNotification
                           [teacher_notification adminId request ''Schedule Change Approved''
                              (approved_message request updatedSlot)] w3);
               w5 = notify_students e adminId request updatedSlot courseName w4;
               w6 = emit e (approve_events request) w5
           in (respond_slot ''Schedule change approved and slot updated successfully'' updatedSlot,
               w6)))"

text \<open>The other branch: "No changes to make, just mark as approved".\<close>

definition approve_without_updates ::
  "env \<Rightarrow> ident \<Rightarrow> ident \<Rightarrow> request \<Rightarrow> world \<Rightarrow> response \<times> world" where
  "approve_without_updates e requestId adminId request w =
     (let w1 = mark_approved e requestId adminId w;
          w2 = snd (insert_notifications e InsertTeacherNotification
                      [teacher_notification adminId request ''Schedule Change Approved''
                         ''Your schedule change request has been approved. No changes were needed.'']
                      w1);
          w3 = emit e [TeacherNotificationsRefresh (rq_teacher_id request)] w2
      in (respond 200 ''Schedule change request approved'', w3))"

text \<open>\<open>POST /schedule-change/:requestId/approve\<close>; \<open>adminId\<close> is \<open>req.user.id\<close>.\<close>

definition approve :: "env \<Rightarrow> ident \<Rightarrow> ident \<Rightarrow> world \<Rightarrow> response \<times> world" where
  "approve e requestId adminId w =
     (case select_pending_request e requestId w of
        Inl requestError \<Rightarrow> (server_error, w)
      | Inr None \<Rightarrow> (not_found_or_processed, w)
      | Inr (Some request) \<Rightarrow>
          (let updates = requested_updates request in
           if has_keys updates then approve_with_updates e requestId adminId request updates w
           else approve_without_updates e requestId adminId request w))"

section \<open>Decline\<close>

definition declined_message :: "string option \<Rightarrow> string" where
  "declined_message declineReason =
     ''Your schedule change request has been declined.'' @
     (if truthy declineReason then '' Reason: '' @ tmpl declineReason else [])"

text \<open>
  \<open>POST /schedule-change/:requestId/decline\<close>; \<open>declineReason\<close> is the field of the
  request body.
\<close>

definition decline :: "env \<Rightarrow> ident \<Rightarrow> ident \<Rightarrow> string option \<Rightarrow> world \<Rightarrow> response \<times> world" where
  "decline e requestId adminId declineReason w =
     (case select_pending_request e requestId w of
        Inl requestError \<Rightarrow> (server_error, w)
      | Inr None \<Rightarrow> (not_found_or_processed, w)
      | Inr (Some request) \<Rightarrow>
          (let w1 = mark_declined e requestId adminId declineReason w;
               w2 = snd (insert_notifications e InsertTeacherNotification
                           [teacher_notification adminId request ''Schedule Change Declined''
                              (declined_message declineReason)] w1);
               w3 = emit e [TeacherNotificationsRefresh (rq_teacher_id request),
                            AdminNotificationsRefresh ''schedule_change_declined'' None] w2
           in (respond 200 ''Schedule change request declined'', w3)))"

section \<open>The direct edit of a teacher slot\<close>

text \<open>
  A body field that is compared with \<open>undefined\<close> and coalesced with \<open>??\<close>:
  undefined, \<open>null\<close> or a string.
\<close>

datatype body_text = Undefined | Null | Text string

record edit_body =
  eb_dayOfWeek :: "string option"
  eb_startTime :: "string option"
  eb_endTime :: "string option"
  eb_courseId :: "string option"
  eb_location :: body_text
  eb_notes :: body_text

text \<open>\<open>v === undefined ? existing : v ?? null\<close>\<close>

definition keep_or_set :: "body_text \<Rightarrow> string option \<Rightarrow> string option" where
  "keep_or_set v existing =
     (case v of Undefined \<Rightarrow> existing | Null \<Rightarrow> None | Text s \<Rightarrow> Some s)"

text \<open>The object \<open>payload\<close> of the edit handler.\<close>

definition edit_payload :: "edit_body \<Rightarrow> teacher_slot \<Rightarrow> course option \<Rightarrow> teacher_slot_update" where
  "edit_payload body existing courseRow =
     \<lparr>tu_day_of_week = (if truthy (eb_dayOfWeek body) then eb_dayOfWeek body else None),
      tu_start_time = (if truthy (eb_startTime body) then eb_startTime body else None),
      tu_end_time = (if truthy (eb_endTime body) then eb_endTime body else None),
      tu_course_id =
        Some (case courseRow of
                Some c \<Rightarrow> Some (co_id c)
              | None \<Rightarrow> if eb_courseId body = Some [] then None else ts_course_id existing),
      tu_location = Some (keep_or_set (eb_location body) (ts_location existing)),
      tu_notes = Some (keep_or_set (eb_notes body) (ts_notes existing))\<rparr>"

definition slot_old_values :: "teacher_slot \<Rightarrow> old_values" where
  "slot_old_values existing =
     \<lparr>ov_day_of_week = ts_day_of_week existing,
      ov_start_time = ts_start_time existing,
      ov_end_time = ts_end_time existing\<rparr>"

definition edit_events :: "teacher_slot \<Rightarrow> event list" where
  "edit_events slotRow =
     AdminTimetableRefresh (ts_teacher_id slotRow) (ts_id slotRow) #
     (if truthy (ts_course_id slotRow) then [StudentTimetableRefresh (ts_course_id slotRow)]
      else [])"

text \<open>The edit handler from the write of the payload on.\<close>

definition edit_write ::
  "env \<Rightarrow> ident \<Rightarrow> edit_body \<Rightarrow> teacher_slot \<Rightarrow> course option \<Rightarrow> world \<Rightarrow> response \<times> world" where
  "edit_write e slotId body existing courseRow w =
     (case update_teacher_slot e slotId (edit_payload body existing courseRow) w of
        (Inl updateError, w1) \<Rightarrow> (server_error, w1)
      | (Inr slotRow, w1) \<Rightarrow>
          (let w2 = syncTeacherSlotToCourseSlot e slotRow (Some (slot_old_values existing)) w1;
               w3 = emit e (edit_events slotRow) w2
           in (respond_slot ''Slot updated successfully'' slotRow, w3)))"

text \<open>
  \<open>PUT /timetable/teachers/slots/:slotId\<close>. The response carries the updated row; its
  renaming of the columns by \<open>mapTeacherTimetableSlot\<close> is left out.
\<close>

definition edit_teacher_slot :: "env \<Rightarrow> ident \<Rightarrow> edit_body \<Rightarrow> world \<Rightarrow> response \<times> world" where
  "edit_teacher_slot e slotId body w =
     (case select_teacher_slot e slotId w of
        Inl existingError \<Rightarrow> (server_error, w)
      | Inr None \<Rightarrow> (respond 404 ''Slot not found'', w)
      | Inr (Some existing) \<Rightarrow>
          if truthy (eb_courseId body) then
            (case select_course e SelectCourse (eb_courseId body) w of
               Inl error \<Rightarrow> (server_error, w)
             | Inr None \<Rightarrow> (respond 404 ''Course not found'', w)
             | Inr (Some data) \<Rightarrow> edit_write e slotId body existing (Some data) w)
          else edit_write e slotId body existing None w)"

section \<open>Submit\<close>

record submit_body =
  sb_slotId :: "string option"
  sb_requestedDayOfWeek :: "string option"
  sb_requestedStartTime :: "string option"
  sb_requestedEndTime :: "string option"
  sb_reason :: "string option"

text \<open>The object \<open>requestData\<close>, with the identifier the store gives the new row.\<close>

definition requestData :: "env \<Rightarrow> ident \<Rightarrow> ident \<Rightarrow> submit_body \<Rightarrow> teacher_slot \<Rightarrow> request" where
  "requestData e slotId userId body slotRow =
     \<lparr>rq_id = generated_id e,
      rq_slot_id = slotId,
      rq_teacher_id = Some userId,
      rq_course_id = or_null (ts_course_id slotRow),
      rq_current_day_of_week = ts_day_of_week slotRow,
      rq_current_start_time = ts_start_time slotRow,
      rq_current_end_time = ts_end_time slotRow,
      rq_requested_day_of_week = or_null (sb_requestedDayOfWeek body),
      rq_requested_start_time = or_null (sb_requestedStartTime body),
      rq_requested_end_time = or_null (sb_requestedEndTime body),
      rq_reason = sb_reason body,
      rq_status = Pending,
      rq_approved_by = None, rq_approved_at = None,
      rq_declined_by = None, rq_declined_at = None, rq_declined_reason = None\<rparr>"

text \<open>
  \<open>POST /timetable/request-change\<close>; \<open>userId\<close> is \<open>req.user.id\<close>, \<open>None\<close> when there
  is no user or no identifier. The handler also reads the teacher's name from \<open>users\<close>
  when \<open>req.user\<close> has none; the name is used nowhere afterwards and the read is left out.
\<close>

definition submit :: "env \<Rightarrow> ident option \<Rightarrow> submit_body \<Rightarrow> world \<Rightarrow> response \<times> world" where
  "submit e userId body w =
     (if \<not> truthy (sb_slotId body) \<or> \<not> truthy (sb_reason body)
      then (respond 400 ''Slot ID and reason are required'', w)
      else if \<not> truthy userId then (respond 401 ''User not authenticated'', w)
      else
        (case select_owned_slot e (tmpl (sb_slotId body)) (tmpl userId) w of
           Inl slotError \<Rightarrow> (server_error, w)
         | Inr None \<Rightarrow>
             (respond 404 (''Slot not found or you don'' @ [CHR 0x27] @ ''t have permission''), w)
         | Inr (Some slotRow) \<Rightarrow>
             (case insert_request e
                     (requestData e (tmpl (sb_slotId body)) (tmpl userId) body slotRow) w of
                (Inl createError, w1) \<Rightarrow> (server_error, w1)
              | (Inr createdRequest, w1) \<Rightarrow>
                  (let w2 = emit e [AdminNotificationsRefresh ''schedule_change_request'' userId] w1
                   in (respond 200 ''Schedule change request submitted successfully'', w2)))))"

section \<open>Concrete data\<close>

text \<open>A store that never fails, a registered socket server, and a few rows.\<close>

definition no_faults :: "call \<Rightarrow> bool" where
  "no_faults c = False"

definition env0 :: env where
  "env0 = \<lparr>fails = no_faults, io_registered = True,
           now_iso = ''2026-01-01T00:00:00.000Z'', generated_id = ''new-1''\<rparr>"

definition slot0 :: teacher_slot where
  "slot0 = \<lparr>ts_id = ''S1'', ts_teacher_id = Some ''T1'', ts_course_id = Some ''C1'',
            ts_day_of_week = Some ''Thursday'', ts_start_time = Some ''14:00'',
            ts_end_time = Some ''15:00'', ts_location = None, ts_notes = None\<rparr>"

definition csA :: course_slot where
  "csA = \<lparr>cs_id = ''cs-a'', cs_course_id = Some ''C1'', cs_teacher_id = Some ''T1'',
          cs_day_of_week = Some ''Monday'', cs_start_time = Some ''09:00'',
          cs_end_time = Some ''10:00'', cs_location = Some ''Room 1'', cs_notes = None\<rparr>"

definition csB :: course_slot where
  "csB = \<lparr>cs_id = ''cs-b'', cs_course_id = Some ''C1'', cs_teacher_id = Some ''T1'',
          cs_day_of_week = Some ''Tuesday'', cs_start_time = Some ''09:00'',
          cs_end_time = Some ''10:00'', cs_location = None, cs_notes = None\<rparr>"

definition old_wed :: old_values where
  "old_wed = \<lparr>ov_day_of_week = Some ''Wednesday'', ov_start_time = Some ''10:00'',
              ov_end_time = Some ''11:00''\<rparr>"

definition old_mon :: old_values where
  "old_mon = \<lparr>ov_day_of_week = Some ''Monday'', ov_start_time = Some ''08:00'',
              ov_end_time = Some ''09:00''\<rparr>"

definition world_of :: "course_slot list \<Rightarrow> world" where
  "world_of cs = \<lparr>teacher_schedule_slots = [], course_schedule_slots = cs,
                  schedule_change_requests = [], notifications = [], courses = [],
                  course_students = [], emitted = [], journal = []\<rparr>"

definition csN :: course_slot where
  "csN = \<lparr>cs_id = ''cs-n'', cs_course_id = Some ''C1'', cs_teacher_id = Some ''T1'',
          cs_day_of_week = Some ''Thursday'', cs_start_time = Some ''14:00'',
          cs_end_time = Some ''15:00'', cs_location = None, cs_notes = None\<rparr>"

definition csX :: course_slot where
  "csX = \<lparr>cs_id = ''cs-x'', cs_course_id = Some ''C2'', cs_teacher_id = Some ''T1'',
          cs_day_of_week = Some ''Friday'', cs_start_time = Some ''09:00'',
          cs_end_time = Some ''10:00'', cs_location = None, cs_notes = None\<rparr>"

definition tslot1 :: teacher_slot where
  "tslot1 = \<lparr>ts_id = ''S1'', ts_teacher_id = Some ''T1'', ts_course_id = Some ''C1'',
             ts_day_of_week = Some ''Tuesday'', ts_start_time = Some ''10:00'',
             ts_end_time = Some ''11:00'', ts_location = Some ''Room 1'', ts_notes = None\<rparr>"

definition cs1 :: course_slot where
  "cs1 = \<lparr>cs_id = ''cs-1'', cs_course_id = Some ''C1'', cs_teacher_id = Some ''T1'',
          cs_day_of_week = Some ''Tuesday'', cs_start_time = Some ''10:00'',
          cs_end_time = Some ''11:00'', cs_location = Some ''Room 1'', cs_notes = None\<rparr>"

text \<open>A pending request to move the slot, one that asks for nothing, and a processed one.\<close>

definition req_move :: request where
  "req_move = \<lparr>rq_id = ''R1'', rq_slot_id = ''S1'', rq_teacher_id = Some ''T1'',
               rq_course_id = Some ''C1'', rq_current_day_of_week = Some ''Tuesday'',
               rq_current_start_time = Some ''10:00'', rq_current_end_time = Some ''11:00'',
               rq_requested_day_of_week = Some ''Wednesday'',
               rq_requested_start_time = Some ''14:00'', rq_requested_end_time = Some ''15:00'',
               rq_reason = Some ''room conflict'', rq_status = Pending,
               rq_approved_by = None, rq_approved_at = None, rq_declined_by = None,
               rq_declined_at = None, rq_declined_reason = None\<rparr>"

definition req_plain :: request where
  "req_plain = \<lparr>rq_id = ''R2'', rq_slot_id = ''S1'', rq_teacher_id = Some ''T1'',
                rq_course_id = Some ''C1'', rq_current_day_of_week = Some ''Tuesday'',
                rq_current_start_time = Some ''10:00'', rq_current_end_time = Some ''11:00'',
                rq_requested_day_of_week = None,
                rq_requested_start_time = None, rq_requested_end_time = None,
                rq_reason = Some ''please review'', rq_status = Pending,
                rq_approved_by = None, rq_approved_at = None, rq_declined_by = None,
                rq_declined_at = None, rq_declined_reason = None\<rparr>"

definition req_done :: request where
  "req_done = \<lparr>rq_id = ''R3'', rq_slot_id = ''S1'', rq_teacher_id = Some ''T1'',
               rq_course_id = Some ''C1'', rq_current_day_of_week = Some ''Monday'',
               rq_current_start_time = Some ''10:00'', rq_current_end_time = Some ''11:00'',
               rq_requested_day_of_week = Some ''Tuesday'',
               rq_requested_start_time = None, rq_requested_end_time = None,
               rq_reason = Some ''clash'', rq_status = Approved,
               rq_approved_by = Some ''A1'', rq_approved_at = Some ''2025-12-01T08:00:00.000Z'',
               rq_declined_by = None, rq_declined_at = None, rq_declined_reason = None\<rparr>"

definition world1 :: world where
  "world1 = \<lparr>teacher_schedule_slots = [tslot1], course_schedule_slots = [cs1],
              schedule_change_requests = [req_move, req_plain, req_done], notifications = [],
              courses = [\<lparr>co_id = ''C1'', co_name = Some ''Algebra''\<rparr>],
              course_students = [\<lparr>en_course_id = Some ''C1'', en_student_id = Some ''st-1''\<rparr>],
              emitted = [], journal = []\<rparr>"

definition body1 :: submit_body where
  "body1 = \<lparr>sb_slotId = Some ''S1'', sb_requestedDayOfWeek = Some ''Wednesday'',
             sb_requestedStartTime = Some ''14:00'', sb_requestedEndTime = Some ''15:00'',
             sb_reason = Some ''room conflict''\<rparr>"

text \<open>A pending request whose requested values are the current ones.\<close>

definition req_same :: request where
  "req_same = \<lparr>rq_id = ''R4'', rq_slot_id = ''S1'', rq_teacher_id = Some ''T1'',
               rq_course_id = Some ''C1'', rq_current_day_of_week = Some ''Tuesday'',
               rq_current_start_time = Some ''10:00'', rq_current_end_time = Some ''11:00'',
               rq_requested_day_of_week = Some ''Tuesday'',
               rq_requested_start_time = None, rq_requested_end_time = None,
               rq_reason = Some ''confirm'', rq_status = Pending,
               rq_approved_by = None, rq_approved_at = None, rq_declined_by = None,
               rq_declined_at = None, rq_declined_reason = None\<rparr>"

definition world2 :: world where
  "world2 = world1\<lparr>schedule_change_requests := [req_same, req_plain]\<rparr>"

text \<open>
  An environment in which the three store calls of the synchronizer answer as given:
  \<open>True\<close> is a failure of the call.
\<close>

definition with_sync_faults :: "bool \<Rightarrow> bool \<Rightarrow> bool \<Rightarrow> env \<Rightarrow> env" where
  "with_sync_faults a b c e =
     e\<lparr>fails := (fails e)(SelectCourseSlots := a, UpdateCourseSlot := b, InsertCourseSlot := c)\<rparr>"

definition edit1 :: edit_body where
  "edit1 = \<lparr>eb_dayOfWeek = Some ''Monday'', eb_startTime = None, eb_endTime = None,
             eb_courseId = None, eb_location = Undefined, eb_notes = Null\<rparr>"

text \<open>The store fails on the update of the teacher slot and on nothing else.\<close>

definition env_slot_fails :: env where
  "env_slot_fails = env0\<lparr>fails := (fails env0)(UpdateTeacherSlot := True)\<rparr>"

text \<open>The new values with a location and notes, and with both the empty string.\<close>

definition slot_lab :: teacher_slot where
  "slot_lab = \<lparr>ts_id = ''S1'', ts_teacher_id = Some ''T1'', ts_course_id = Some ''C1'',
               ts_day_of_week = Some ''Thursday'', ts_start_time = Some ''14:00'',
               ts_end_time = Some ''15:00'', ts_location = Some ''Lab 2'',
               ts_notes = Some ''bring laptops''\<rparr>"

definition slot_blank :: teacher_slot where
  "slot_blank = \<lparr>ts_id = ''S1'', ts_teacher_id = Some ''T1'', ts_course_id = Some ''C1'',
                 ts_day_of_week = Some ''Thursday'', ts_start_time = Some ''14:00'',
                 ts_end_time = Some ''15:00'', ts_location = Some [], ts_notes = Some []\<rparr>"

section \<open>Facts about the store calls and the choice of the target\<close>

lemmas example_defs = no_faults_def env0_def slot0_def csA_def csB_def old_wed_def old_mon_def
  world_of_def

lemmas sync_defs = syncTeacherSlotToCourseSlot_def select_course_slots_def candidates_def
  choose_target_def choose_with_old_def choose_without_old_def old_complete_def truthy_def
  same_slot_time_def same_day_def update_course_slot_def insert_course_slot_def log_stmt_def
  courseSlotUpdate_def newCourseSlot_def or_null_def apply_course_update_def issued_def

lemma issued_same: "issued w w = []"
  by (simp add: issued_def)

lemma find_mem: "find P xs = Some x \<Longrightarrow> x \<in> set xs"
  by (auto simp: find_Some_iff)

lemma choose_with_old_mem: "choose_with_old ov xs = Target c \<Longrightarrow> c \<in> set xs"
  by (cases xs) (auto simp: choose_with_old_def split: option.splits if_splits dest: find_mem)

lemma choose_without_old_mem: "choose_without_old t xs = Target c \<Longrightarrow> c \<in> set xs"
  by (cases xs) (auto simp: choose_without_old_def split: option.splits if_splits)

lemma choose_target_mem: "choose_target t old xs = Target c \<Longrightarrow> c \<in> set xs"
  by (auto simp: choose_target_def split: option.splits if_splits
      dest: choose_with_old_mem choose_without_old_mem)

lemma update_course_slot_world:
  "snd (update_course_slot e i u w) =
     w\<lparr>journal := journal w @ [UpdateCourseSlotStmt i u],
       course_schedule_slots :=
         (if fails e UpdateCourseSlot then course_schedule_slots w
          else map (\<lambda>s. if cs_id s = i then apply_course_update u s else s)
                 (course_schedule_slots w))\<rparr>"
  by (simp add: update_course_slot_def log_stmt_def Let_def)

lemma insert_course_slot_world:
  "snd (insert_course_slot e row w) =
     w\<lparr>journal := journal w @ [InsertCourseSlotStmt row],
       course_schedule_slots :=
         (if fails e InsertCourseSlot then course_schedule_slots w
          else course_schedule_slots w @ [row])\<rparr>"
  by (simp add: insert_course_slot_def log_stmt_def Let_def)

text \<open>The synchronizer does nothing without a course, without a teacher, or when the fetch fails.\<close>

lemma sync_skip:
  "\<not> truthy (ts_course_id t) \<or> \<not> truthy (ts_teacher_id t) \<or> fails e SelectCourseSlots \<Longrightarrow>
   syncTeacherSlotToCourseSlot e t old w = w"
  by (auto simp: syncTeacherSlotToCourseSlot_def select_course_slots_def)

lemma sync_fetched:
  "truthy (ts_course_id t) \<Longrightarrow> truthy (ts_teacher_id t) \<Longrightarrow> \<not> fails e SelectCourseSlots \<Longrightarrow>
   syncTeacherSlotToCourseSlot e t old w =
     (case choose_target t old (candidates (ts_course_id t) (ts_teacher_id t) w) of
        AlreadyThere \<Rightarrow> w
      | Target c \<Rightarrow> snd (update_course_slot e (cs_id c) (courseSlotUpdate t) w)
      | NoTarget \<Rightarrow>
          if find (same_slot_time (ts_day_of_week t) (ts_start_time t) (ts_end_time t))
               (candidates (ts_course_id t) (ts_teacher_id t) w) \<noteq> None
          then w
          else snd (insert_course_slot e (newCourseSlot e t) w))"
  by (auto simp: syncTeacherSlotToCourseSlot_def select_course_slots_def split: choice.splits)

text \<open>Every run of the synchronizer is one of three: nothing, one update, one insert.\<close>

lemma sync_cases:
  "syncTeacherSlotToCourseSlot e t old w = w \<or>
   (\<exists>c \<in> set (candidates (ts_course_id t) (ts_teacher_id t) w).
      syncTeacherSlotToCourseSlot e t old w =
        snd (update_course_slot e (cs_id c) (courseSlotUpdate t) w)) \<or>
   syncTeacherSlotToCourseSlot e t old w = snd (insert_course_slot e (newCourseSlot e t) w)"
  by (auto simp: syncTeacherSlotToCourseSlot_def select_course_slots_def
      split: choice.splits dest: choose_target_mem)

lemma choose_many_no_exact:
  assumes "2 \<le> length xs"
    and "\<forall>s \<in> set xs. \<not> same_slot_time (ov_day_of_week ov) (ov_start_time ov) (ov_end_time ov) s"
  shows "choose_with_old ov xs = NoTarget"
proof -
  from assms(1) have "xs \<noteq> []" "length xs \<noteq> 1" by auto
  moreover from assms(2)
  have "find (same_slot_time (ov_day_of_week ov) (ov_start_time ov) (ov_end_time ov)) xs = None"
    by (simp add: find_None_iff)
  ultimately show ?thesis
    by (simp add: choose_with_old_def split: option.splits)
qed

lemma choose_sole_no_exact:
  assumes "\<not> same_slot_time (ov_day_of_week ov) (ov_start_time ov) (ov_end_time ov) c"
  shows "choose_with_old ov [c] = Target c"
  using assms by (simp add: choose_with_old_def split: option.splits)

lemma sync_no_old_match:
  assumes "\<exists>s \<in> set (candidates (ts_course_id t) (ts_teacher_id t) w).
             same_slot_time (ts_day_of_week t) (ts_start_time t) (ts_end_time t) s"
  shows "syncTeacherSlotToCourseSlot e t None w = w"
proof -
  let ?all = "candidates (ts_course_id t) (ts_teacher_id t) w"
  from assms have ne: "?all \<noteq> []" by auto
  from assms
  have "find (same_slot_time (ts_day_of_week t) (ts_start_time t) (ts_end_time t)) ?all \<noteq> None"
    by (auto simp: find_None_iff)
  with ne have "choose_target t None ?all = AlreadyThere"
    by (auto simp: choose_target_def choose_without_old_def)
  then show ?thesis
    by (simp add: syncTeacherSlotToCourseSlot_def select_course_slots_def)
qed

lemma filter_map_unchanged:
  "(\<And>x. x \<in> set xs \<Longrightarrow> P (f x) = P x \<and> (P x \<longrightarrow> f x = x)) \<Longrightarrow>
   filter P (map f xs) = filter P xs"
  by (induction xs) auto

lemma same_id_same_row:
  assumes "distinct (map cs_id xs)" and "c \<in> set xs" and "s \<in> set xs" and "cs_id s = cs_id c"
  shows "s = c"
proof -
  from assms(1) have "inj_on cs_id (set xs)" by (simp add: distinct_map)
  with assms(2-4) show ?thesis by (auto dest: inj_onD)
qed

lemma candidates_mem:
  "c \<in> set (candidates ci ti w) \<longleftrightarrow>
   c \<in> set (course_schedule_slots w) \<and> cs_course_id c = ci \<and> cs_teacher_id c = ti"
  by (auto simp: candidates_def)

section \<open>Facts about the handlers\<close>

lemmas handler_example_defs = tslot1_def cs1_def req_move_def req_plain_def req_done_def
  world1_def body1_def

lemma select_pending_one:
  "\<not> fails e SelectRequest \<Longrightarrow>
   filter (\<lambda>r. rq_id r = rid \<and> rq_status r = Pending) (schedule_change_requests w) = [r] \<Longrightarrow>
   select_pending_request e rid w = Inr (Some r)"
  by (simp add: select_pending_request_def maybeSingle_def)

lemma select_pending_none:
  "\<not> fails e SelectRequest \<Longrightarrow>
   \<forall>r \<in> set (schedule_change_requests w). rq_id r = rid \<longrightarrow> rq_status r \<noteq> Pending \<Longrightarrow>
   select_pending_request e rid w = Inr None"
proof -
  assume ok: "\<not> fails e SelectRequest"
    and "\<forall>r \<in> set (schedule_change_requests w). rq_id r = rid \<longrightarrow> rq_status r \<noteq> Pending"
  then have "filter (\<lambda>r. rq_id r = rid \<and> rq_status r = Pending) (schedule_change_requests w) = []"
    by (auto simp: filter_empty_conv)
  with ok show ?thesis by (simp add: select_pending_request_def maybeSingle_def)
qed

lemma mark_approved_world:
  "mark_approved e i a w =
     w\<lparr>journal := journal w @ [MarkApprovedStmt i (Some a) (now_iso e)],
       schedule_change_requests :=
         (if fails e UpdateRequest then schedule_change_requests w
          else map (\<lambda>r. if rq_id r = i
                         then r\<lparr>rq_status := Approved, rq_approved_by := Some a,
                                rq_approved_at := Some (now_iso e)\<rparr>
                         else r)
                 (schedule_change_requests w))\<rparr>"
  by (simp add: mark_approved_def log_stmt_def Let_def)

lemma mark_declined_world:
  "mark_declined e i a reason w =
     w\<lparr>journal := journal w @ [MarkDeclinedStmt i (Some a) (now_iso e) (or_null reason)],
       schedule_change_requests :=
         (if fails e UpdateRequest then schedule_change_requests w
          else map (\<lambda>r. if rq_id r = i
                         then r\<lparr>rq_status := Declined, rq_declined_by := Some a,
                                rq_declined_at := Some (now_iso e),
                                rq_declined_reason := or_null reason\<rparr>
                         else r)
                 (schedule_change_requests w))\<rparr>"
  by (simp add: mark_declined_def log_stmt_def Let_def)

lemma insert_notifications_world:
  "snd (insert_notifications e c rows w) =
     w\<lparr>journal := journal w @ [InsertNotificationsStmt rows],
       notifications := (if fails e c then notifications w else notifications w @ rows)\<rparr>"
  by (simp add: insert_notifications_def log_stmt_def Let_def)

lemma emit_world:
  "emit e evs w = w\<lparr>emitted := (if io_registered e then emitted w @ evs else emitted w)\<rparr>"
  by (simp add: emit_def)

lemma update_teacher_slot_journal:
  "journal (snd (update_teacher_slot e i u w)) = journal w @ [UpdateTeacherSlotStmt i u]"
  by (simp add: update_teacher_slot_def log_stmt_def Let_def split: list.splits)

lemma update_teacher_slot_one:
  "\<not> fails e UpdateTeacherSlot \<Longrightarrow> filter (\<lambda>s. ts_id s = i) (teacher_schedule_slots w) = [s] \<Longrightarrow>
   update_teacher_slot e i u w =
     (Inr (apply_teacher_update u s),
      w\<lparr>journal := journal w @ [UpdateTeacherSlotStmt i u],
        teacher_schedule_slots :=
          map (\<lambda>s. if ts_id s = i then apply_teacher_update u s else s)
            (teacher_schedule_slots w)\<rparr>)"
  by (simp add: update_teacher_slot_def log_stmt_def Let_def)

text \<open>What the synchronizer leaves alone, and that it only adds to the journal.\<close>

lemma sync_frame:
  "teacher_schedule_slots (syncTeacherSlotToCourseSlot e t old w) = teacher_schedule_slots w \<and>
   schedule_change_requests (syncTeacherSlotToCourseSlot e t old w) = schedule_change_requests w \<and>
   notifications (syncTeacherSlotToCourseSlot e t old w) = notifications w \<and>
   courses (syncTeacherSlotToCourseSlot e t old w) = courses w \<and>
   course_students (syncTeacherSlotToCourseSlot e t old w) = course_students w \<and>
   emitted (syncTeacherSlotToCourseSlot e t old w) = emitted w \<and>
   (\<exists>js. journal (syncTeacherSlotToCourseSlot e t old w) = journal w @ js)"
  using sync_cases [of e t old w]
  by (auto simp: update_course_slot_world insert_course_slot_world)

lemma notify_students_frame:
  "teacher_schedule_slots (notify_students e a r s n w) = teacher_schedule_slots w \<and>
   course_schedule_slots (notify_students e a r s n w) = course_schedule_slots w \<and>
   schedule_change_requests (notify_students e a r s n w) = schedule_change_requests w \<and>
   emitted (notify_students e a r s n w) = emitted w \<and>
   (\<exists>js. journal (notify_students e a r s n w) = journal w @ js)"
  by (auto simp: notify_students_def insert_notifications_world Let_def split: sum.splits)

lemma has_keys_requested:
  "has_keys (requested_updates r) \<longleftrightarrow>
   truthy (rq_requested_day_of_week r) \<or> truthy (rq_requested_start_time r) \<or>
   truthy (rq_requested_end_time r)"
  by (auto simp: has_keys_def requested_updates_def truthy_def split: option.splits)

text \<open>
  The branch with updates starts with the update of the teacher slot; what follows only
  adds to the journal and leaves the teacher slots alone.
\<close>

lemma approve_with_updates_trace:
  "(\<exists>js. journal (snd (approve_with_updates e rid admin r u w)) =
          journal w @ UpdateTeacherSlotStmt (rq_slot_id r) u # js) \<and>
   teacher_schedule_slots (snd (approve_with_updates e rid admin r u w)) =
     teacher_schedule_slots (snd (update_teacher_slot e (rq_slot_id r) u w))"
proof (cases "update_teacher_slot e (rq_slot_id r) u w")
  case (Pair res w1)
  have j1: "journal w1 = journal w @ [UpdateTeacherSlotStmt (rq_slot_id r) u]"
    using Pair update_teacher_slot_journal [of e "rq_slot_id r" u w] by simp
  show ?thesis
  proof (cases res)
    case (Inl err)
    with Pair j1 show ?thesis by (simp add: approve_with_updates_def)
  next
    case (Inr slot)
    define w2 where "w2 = syncTeacherSlotToCourseSlot e slot (Some (request_old_values r)) w1"
    define w4 where "w4 = snd (insert_notifications e InsertTeacherNotification
        [teacher_notification admin r ''Schedule Change Approved'' (approved_message r slot)]
        (mark_approved e rid admin w2))"
    define w5 where "w5 = notify_students e admin r slot
        (course_name e r (mark_approved e rid admin w2)) w4"
    have fin: "snd (approve_with_updates e rid admin r u w) = emit e (approve_events r) w5"
      using Pair Inr by (simp add: approve_with_updates_def Let_def w2_def w4_def w5_def)
    obtain js2 where j2: "journal w2 = journal w1 @ js2"
      and t2: "teacher_schedule_slots w2 = teacher_schedule_slots w1"
      using sync_frame [of e slot "Some (request_old_values r)" w1] by (auto simp: w2_def)
    have j4: "journal w4 = journal w2 @
        [MarkApprovedStmt rid (Some admin) (now_iso e),
         InsertNotificationsStmt
           [teacher_notification admin r ''Schedule Change Approved'' (approved_message r slot)]]"
      and t4: "teacher_schedule_slots w4 = teacher_schedule_slots w2"
      by (simp_all add: w4_def insert_notifications_world mark_approved_world)
    obtain js5 where j5: "journal w5 = journal w4 @ js5"
      and t5: "teacher_schedule_slots w5 = teacher_schedule_slots w4"
      using notify_students_frame
        [of e admin r slot "course_name e r (mark_approved e rid admin w2)" w4]
      by (auto simp: w5_def)
    from fin j1 j2 j4 j5 t2 t4 t5 Pair show ?thesis
      by (simp add: emit_world)
  qed
qed

text \<open>\<open>x || null\<close> keeps every value but the empty string, which becomes \<open>null\<close>.\<close>

lemma or_null_explicit: "or_null v = (if v = Some [] then None else v)"
  by (cases v) (auto simp: or_null_def truthy_def)

lemma truthy_explicit: "truthy v \<longleftrightarrow> v \<noteq> None \<and> v \<noteq> Some []"
  by (cases v) (auto simp: truthy_def)

text \<open>The object \<open>updates\<close> and what its write does to a teacher slot, spelled out.\<close>

lemma requested_updates_explicit:
  "requested_updates r =
     \<lparr>tu_day_of_week =
        (if rq_requested_day_of_week r = Some [] then None else rq_requested_day_of_week r),
      tu_start_time =
        (if rq_requested_start_time r = Some [] then None else rq_requested_start_time r),
      tu_end_time =
        (if rq_requested_end_time r = Some [] then None else rq_requested_end_time r),
      tu_course_id = None, tu_location = None, tu_notes = None\<rparr>"
  by (auto simp: requested_updates_def truthy_explicit)

lemma apply_requested_explicit:
  "apply_teacher_update (requested_updates r) x =
     x\<lparr>ts_day_of_week :=
         (if rq_requested_day_of_week r \<in> {None, Some []} then ts_day_of_week x
          else rq_requested_day_of_week r),
       ts_start_time :=
         (if rq_requested_start_time r \<in> {None, Some []} then ts_start_time x
          else rq_requested_start_time r),
       ts_end_time :=
         (if rq_requested_end_time r \<in> {None, Some []} then ts_end_time x
          else rq_requested_end_time r)\<rparr>"
  by (cases "rq_requested_day_of_week r"; cases "rq_requested_start_time r";
      cases "rq_requested_end_time r")
     (simp_all add: apply_teacher_update_def requested_updates_def truthy_def)

section \<open>The synchronizer: the claims\<close>

text \<open>
  C1, as stated: with a complete old snapshot, two or more candidates and none of them
  matching the old snapshot exactly or by day, the synchronizer writes nothing. The
  code does not behave so. With the candidates Monday 09:00-10:00 and Tuesday
  09:00-10:00, the old snapshot Wednesday 10:00-11:00 and the new values Thursday
  14:00-15:00, no candidate is chosen and the synchronizer goes on to "Creating new course
  slot": it issues one insert and the table has a third row.
\<close>

theorem ambiguous_no_match_counterexample:
  "old_complete (Some old_wed) \<and>
   candidates (ts_course_id slot0) (ts_teacher_id slot0) (world_of [csA, csB]) = [csA, csB] \<and>
   find (same_slot_time (ov_day_of_week old_wed) (ov_start_time old_wed) (ov_end_time old_wed))
     [csA, csB] = None \<and>
   find (same_day (ov_day_of_week old_wed)) [csA, csB] = None \<and>
   issued (world_of [csA, csB])
     (syncTeacherSlotToCourseSlot env0 slot0 (Some old_wed) (world_of [csA, csB])) =
     [InsertCourseSlotStmt (newCourseSlot env0 slot0)] \<and>
   course_schedule_slots
     (syncTeacherSlotToCourseSlot env0 slot0 (Some old_wed) (world_of [csA, csB])) =
     [csA, csB, newCourseSlot env0 slot0]"
  by (simp add: example_defs sync_defs)

text \<open>
  C1, amended: with a complete old snapshot, two or more candidates for the pair and none
  of them matching the old snapshot exactly or by day, the synchronizer updates no
  candidate. It writes nothing only when the fetch of the candidates fails or some
  candidate already has exactly the new day, start and end; otherwise it issues one insert
  of a row with the pair, the new day, start and end, and the new location and notes
  (\<open>null\<close> written for an empty string as for \<open>null\<close>), and the row is appended unless the
  insert fails.
\<close>

theorem ambiguous_no_match_inserts:
  assumes "truthy (ts_course_id t)" and "truthy (ts_teacher_id t)"
    and "old_complete (Some ov)"
    and "2 \<le> length (candidates (ts_course_id t) (ts_teacher_id t) w)"
    and "\<forall>s \<in> set (candidates (ts_course_id t) (ts_teacher_id t) w).
           \<not> same_slot_time (ov_day_of_week ov) (ov_start_time ov) (ov_end_time ov) s \<and>
           \<not> same_day (ov_day_of_week ov) s"
  shows "issued w (syncTeacherSlotToCourseSlot e t (Some ov) w) =
           (if fails e SelectCourseSlots \<or>
               (\<exists>s \<in> set (candidates (ts_course_id t) (ts_teacher_id t) w).
                  same_slot_time (ts_day_of_week t) (ts_start_time t) (ts_end_time t) s)
            then [] else [InsertCourseSlotStmt
                   \<lparr>cs_id = generated_id e, cs_course_id = ts_course_id t,
                    cs_teacher_id = ts_teacher_id t, cs_day_of_week = ts_day_of_week t,
                    cs_start_time = ts_start_time t, cs_end_time = ts_end_time t,
                    cs_location = (if ts_location t = Some [] then None else ts_location t),
                    cs_notes = (if ts_notes t = Some [] then None else ts_notes t)\<rparr>]) \<and>
         course_schedule_slots (syncTeacherSlotToCourseSlot e t (Some ov) w) =
           (if fails e SelectCourseSlots \<or> fails e InsertCourseSlot \<or>
               (\<exists>s \<in> set (candidates (ts_course_id t) (ts_teacher_id t) w).
                  same_slot_time (ts_day_of_week t) (ts_start_time t) (ts_end_time t) s)
            then course_schedule_slots w
            else course_schedule_slots w @
                 [\<lparr>cs_id = generated_id e, cs_course_id = ts_course_id t,
                    cs_teacher_id = ts_teacher_id t, cs_day_of_week = ts_day_of_week t,
                    cs_start_time = ts_start_time t, cs_end_time = ts_end_time t,
                    cs_location = (if ts_location t = Some [] then None else ts_location t),
                    cs_notes = (if ts_notes t = Some [] then None else ts_notes t)\<rparr>])"
proof (cases "fails e SelectCourseSlots")
  case True
  then show ?thesis by (simp add: sync_skip issued_same)
next
  case False
  let ?all = "candidates (ts_course_id t) (ts_teacher_id t) w"
  from assms(4,5) have "choose_with_old ov ?all = NoTarget"
    by (intro choose_many_no_exact) auto
  with assms(3) have "choose_target t (Some ov) ?all = NoTarget"
    by (simp add: choose_target_def)
  with False assms(1,2) show ?thesis
    by (auto simp: sync_fetched insert_course_slot_world issued_same issued_def find_None_iff
        newCourseSlot_def or_null_explicit)
qed

theorem ambiguous_no_match_inserts_witness:
  "2 \<le> length (candidates (ts_course_id slot0) (ts_teacher_id slot0) (world_of [csA, csB])) \<and>
   issued (world_of [csA, csB])
     (syncTeacherSlotToCourseSlot env0 slot0 (Some old_wed) (world_of [csA, csB])) =
     [InsertCourseSlotStmt
        \<lparr>cs_id = ''new-1'', cs_course_id = Some ''C1'', cs_teacher_id = Some ''T1'',
         cs_day_of_week = Some ''Thursday'', cs_start_time = Some ''14:00'',
         cs_end_time = Some ''15:00'', cs_location = None, cs_notes = None\<rparr>] \<and>
   course_schedule_slots
     (syncTeacherSlotToCourseSlot env0 slot0 (Some old_wed) (world_of [csA, csB])) =
     [csA, csB] @
     [\<lparr>cs_id = ''new-1'', cs_course_id = Some ''C1'', cs_teacher_id = Some ''T1'',
       cs_day_of_week = Some ''Thursday'', cs_start_time = Some ''14:00'',
       cs_end_time = Some ''15:00'', cs_location = None, cs_notes = None\<rparr>] \<and>
   course_schedule_slots
     (syncTeacherSlotToCourseSlot env0 slot_lab (Some old_wed) (world_of [csA, csB])) =
     [csA, csB] @
     [\<lparr>cs_id = ''new-1'', cs_course_id = Some ''C1'', cs_teacher_id = Some ''T1'',
       cs_day_of_week = Some ''Thursday'', cs_start_time = Some ''14:00'',
       cs_end_time = Some ''15:00'', cs_location = Some ''Lab 2'',
       cs_notes = Some ''bring laptops''\<rparr>]"
proof -
  let ?w = "world_of [csA, csB]"
  have c: "candidates (ts_course_id slot0) (ts_teacher_id slot0) ?w = [csA, csB]"
    and cl: "candidates (ts_course_id slot_lab) (ts_teacher_id slot_lab) ?w = [csA, csB]"
    by (simp_all add: example_defs slot_lab_def candidates_def)
  have h1: "truthy (ts_course_id slot0)" and h2: "truthy (ts_teacher_id slot0)"
    and l1: "truthy (ts_course_id slot_lab)" and l2: "truthy (ts_teacher_id slot_lab)"
    by (simp_all add: slot0_def slot_lab_def truthy_def)
  have h3: "old_complete (Some old_wed)"
    by (simp add: old_wed_def old_complete_def truthy_def)
  have h4: "2 \<le> length (candidates (ts_course_id slot0) (ts_teacher_id slot0) ?w)"
    and l4: "2 \<le> length (candidates (ts_course_id slot_lab) (ts_teacher_id slot_lab) ?w)"
    by (simp_all add: c cl)
  have h5: "\<forall>s \<in> set (candidates (ts_course_id slot0) (ts_teacher_id slot0) ?w).
      \<not> same_slot_time (ov_day_of_week old_wed) (ov_start_time old_wed) (ov_end_time old_wed) s \<and>
      \<not> same_day (ov_day_of_week old_wed) s"
    by (simp add: c) (simp add: example_defs same_slot_time_def same_day_def)
  have l5: "\<forall>s \<in> set (candidates (ts_course_id slot_lab) (ts_teacher_id slot_lab) ?w).
      \<not> same_slot_time (ov_day_of_week old_wed) (ov_start_time old_wed) (ov_end_time old_wed) s \<and>
      \<not> same_day (ov_day_of_week old_wed) s"
    by (simp add: cl) (simp add: example_defs same_slot_time_def same_day_def)
  have new: "\<not> (\<exists>s \<in> set (candidates (ts_course_id slot0) (ts_teacher_id slot0) ?w).
      same_slot_time (ts_day_of_week slot0) (ts_start_time slot0) (ts_end_time slot0) s)"
    by (simp add: c) (simp add: example_defs same_slot_time_def)
  have newl: "\<not> (\<exists>s \<in> set (candidates (ts_course_id slot_lab) (ts_teacher_id slot_lab) ?w).
      same_slot_time (ts_day_of_week slot_lab) (ts_start_time slot_lab) (ts_end_time slot_lab) s)"
    by (simp add: cl) (simp add: example_defs slot_lab_def same_slot_time_def)
  have ok: "\<not> fails env0 SelectCourseSlots" "\<not> fails env0 InsertCourseSlot"
    "generated_id env0 = ''new-1''"
    by (simp_all add: env0_def no_faults_def)
  have tbl: "course_schedule_slots ?w = [csA, csB]"
    by (simp add: world_of_def)
  have v: "ts_course_id slot0 = Some ''C1''" "ts_teacher_id slot0 = Some ''T1''"
    "ts_day_of_week slot0 = Some ''Thursday''" "ts_start_time slot0 = Some ''14:00''"
    "ts_end_time slot0 = Some ''15:00''" "ts_location slot0 = None" "ts_notes slot0 = None"
    "ts_course_id slot_lab = Some ''C1''" "ts_teacher_id slot_lab = Some ''T1''"
    "ts_day_of_week slot_lab = Some ''Thursday''" "ts_start_time slot_lab = Some ''14:00''"
    "ts_end_time slot_lab = Some ''15:00''" "ts_location slot_lab = Some ''Lab 2''"
    "ts_notes slot_lab = Some ''bring laptops''"
    by (simp_all add: slot0_def slot_lab_def)
  have a: "issued ?w (syncTeacherSlotToCourseSlot env0 slot0 (Some old_wed) ?w) =
      [InsertCourseSlotStmt
         \<lparr>cs_id = ''new-1'', cs_course_id = Some ''C1'', cs_teacher_id = Some ''T1'',
          cs_day_of_week = Some ''Thursday'', cs_start_time = Some ''14:00'',
          cs_end_time = Some ''15:00'', cs_location = None, cs_notes = None\<rparr>]"
    "course_schedule_slots (syncTeacherSlotToCourseSlot env0 slot0 (Some old_wed) ?w) =
      [csA, csB] @
      [\<lparr>cs_id = ''new-1'', cs_course_id = Some ''C1'', cs_teacher_id = Some ''T1'',
        cs_day_of_week = Some ''Thursday'', cs_start_time = Some ''14:00'',
        cs_end_time = Some ''15:00'', cs_location = None, cs_notes = None\<rparr>]"
    using ambiguous_no_match_inserts [OF h1 h2 h3 h4 h5, of env0] new ok tbl
    by (simp_all add: v)
  have b: "course_schedule_slots (syncTeacherSlotToCourseSlot env0 slot_lab (Some old_wed) ?w) =
      [csA, csB] @
      [\<lparr>cs_id = ''new-1'', cs_course_id = Some ''C1'', cs_teacher_id = Some ''T1'',
        cs_day_of_week = Some ''Thursday'', cs_start_time = Some ''14:00'',
        cs_end_time = Some ''15:00'', cs_location = Some ''Lab 2'',
        cs_notes = Some ''bring laptops''\<rparr>]"
    using ambiguous_no_match_inserts [OF l1 l2 h3 l4 l5, of env0] newl ok tbl
    by (simp add: v)
  from h4 a b show ?thesis by simp
qed

text \<open>
  C2, as stated: when no candidate matches the old snapshot exactly and exactly one
  candidate has the old day, that candidate is updated in place, whatever the number of
  candidates. The code does not behave so. With the candidates Monday 09:00-10:00 and
  Tuesday 09:00-10:00 and the old snapshot Monday 08:00-09:00, the Monday row is the only
  one with the old day, yet the guard \<open>allCourseSlots.length === 1\<close> fails: the Monday row
  keeps its values, no update is issued, and a third row is inserted.
\<close>

theorem day_match_counterexample:
  "old_complete (Some old_mon) \<and>
   candidates (ts_course_id slot0) (ts_teacher_id slot0) (world_of [csA, csB]) = [csA, csB] \<and>
   find (same_slot_time (ov_day_of_week old_mon) (ov_start_time old_mon) (ov_end_time old_mon))
     [csA, csB] = None \<and>
   filter (same_day (ov_day_of_week old_mon)) [csA, csB] = [csA] \<and>
   issued (world_of [csA, csB])
     (syncTeacherSlotToCourseSlot env0 slot0 (Some old_mon) (world_of [csA, csB])) =
     [InsertCourseSlotStmt (newCourseSlot env0 slot0)] \<and>
   course_schedule_slots
     (syncTeacherSlotToCourseSlot env0 slot0 (Some old_mon) (world_of [csA, csB])) =
     [csA, csB, newCourseSlot env0 slot0] \<and>
   apply_course_update (courseSlotUpdate slot0) csA \<noteq> csA"
  by (simp add: example_defs sync_defs)

text \<open>
  C2, amended: in the update-intent path, when the fetch succeeds and no candidate matches
  the old snapshot exactly, a candidate with the old day is chosen and updated in place
  with the new values only when it is the sole candidate for the pair: then one update of
  that row with the new day, start and end and the new location and notes (\<open>null\<close> written
  for an empty string as for \<open>null\<close>) is issued and nothing is inserted. With two or more
  candidates no update is issued at all, and every row of the table keeps its place and
  its values.
\<close>

theorem day_match_only_when_sole:
  assumes "truthy (ts_course_id t)" and "truthy (ts_teacher_id t)"
    and "old_complete (Some ov)"
    and "\<not> fails e SelectCourseSlots"
    and "\<forall>s \<in> set (candidates (ts_course_id t) (ts_teacher_id t) w).
           \<not> same_slot_time (ov_day_of_week ov) (ov_start_time ov) (ov_end_time ov) s"
  shows "(candidates (ts_course_id t) (ts_teacher_id t) w = [c] \<and> same_day (ov_day_of_week ov) c \<longrightarrow>
            issued w (syncTeacherSlotToCourseSlot e t (Some ov) w) =
              [UpdateCourseSlotStmt (cs_id c)
                \<lparr>cu_day_of_week = ts_day_of_week t, cu_start_time = ts_start_time t,
                 cu_end_time = ts_end_time t,
                 cu_location = (if ts_location t = Some [] then None else ts_location t),
                 cu_notes = (if ts_notes t = Some [] then None else ts_notes t)\<rparr>] \<and>
            (\<not> fails e UpdateCourseSlot \<longrightarrow>
               course_schedule_slots (syncTeacherSlotToCourseSlot e t (Some ov) w) =
                 map (\<lambda>s. if cs_id s = cs_id c then s\<lparr>cs_day_of_week := ts_day_of_week t, cs_start_time := ts_start_time t,
                          cs_end_time := ts_end_time t,
                          cs_location :=
                            (if ts_location t = Some [] then None else ts_location t),
                          cs_notes := (if ts_notes t = Some [] then None else ts_notes t)\<rparr> else s)
                   (course_schedule_slots w))) \<and>
         (2 \<le> length (candidates (ts_course_id t) (ts_teacher_id t) w) \<longrightarrow>
            (\<forall>i u. UpdateCourseSlotStmt i u \<notin>
                     set (issued w (syncTeacherSlotToCourseSlot e t (Some ov) w))) \<and>
            take (length (course_schedule_slots w))
              (course_schedule_slots (syncTeacherSlotToCourseSlot e t (Some ov) w)) =
              course_schedule_slots w)"
proof (intro conjI impI)
  let ?all = "candidates (ts_course_id t) (ts_teacher_id t) w"
  {
    assume sole: "?all = [c] \<and> same_day (ov_day_of_week ov) c"
    with assms(5) have "choose_with_old ov ?all = Target c"
      by (simp add: choose_sole_no_exact)
    with assms(3) have tgt: "choose_target t (Some ov) ?all = Target c"
      by (simp add: choose_target_def)
    with assms(1,2,4)
    show "issued w (syncTeacherSlotToCourseSlot e t (Some ov) w) =
            [UpdateCourseSlotStmt (cs_id c)
                \<lparr>cu_day_of_week = ts_day_of_week t, cu_start_time = ts_start_time t,
                 cu_end_time = ts_end_time t,
                 cu_location = (if ts_location t = Some [] then None else ts_location t),
                 cu_notes = (if ts_notes t = Some [] then None else ts_notes t)\<rparr>]"
      by (simp add: sync_fetched update_course_slot_world issued_def courseSlotUpdate_def
          or_null_explicit)
    assume "\<not> fails e UpdateCourseSlot"
    with tgt assms(1,2,4)
    show "course_schedule_slots (syncTeacherSlotToCourseSlot e t (Some ov) w) =
            map (\<lambda>s. if cs_id s = cs_id c then s\<lparr>cs_day_of_week := ts_day_of_week t, cs_start_time := ts_start_time t,
                          cs_end_time := ts_end_time t,
                          cs_location :=
                            (if ts_location t = Some [] then None else ts_location t),
                          cs_notes := (if ts_notes t = Some [] then None else ts_notes t)\<rparr> else s)
              (course_schedule_slots w)"
      by (simp add: sync_fetched update_course_slot_world courseSlotUpdate_def
          apply_course_update_def or_null_explicit)
  }
  {
    assume many: "2 \<le> length ?all"
    with assms(5) have "choose_with_old ov ?all = NoTarget"
      by (intro choose_many_no_exact) auto
    with assms(3) have none: "choose_target t (Some ov) ?all = NoTarget"
      by (simp add: choose_target_def)
    with assms(1,2,4)
    show "\<forall>i u. UpdateCourseSlotStmt i u \<notin>
            set (issued w (syncTeacherSlotToCourseSlot e t (Some ov) w))"
      by (simp add: sync_fetched insert_course_slot_world issued_def)
    from none assms(1,2,4)
    show "take (length (course_schedule_slots w))
            (course_schedule_slots (syncTeacherSlotToCourseSlot e t (Some ov) w)) =
            course_schedule_slots w"
      by (simp add: sync_fetched insert_course_slot_world)
  }
qed

theorem day_match_only_when_sole_witness:
  "same_day (ov_day_of_week old_mon) csA \<and>
   issued (world_of [csA])
     (syncTeacherSlotToCourseSlot env0 slot_lab (Some old_mon) (world_of [csA])) =
     [UpdateCourseSlotStmt ''cs-a''
        \<lparr>cu_day_of_week = Some ''Thursday'', cu_start_time = Some ''14:00'',
         cu_end_time = Some ''15:00'', cu_location = Some ''Lab 2'',
         cu_notes = Some ''bring laptops''\<rparr>] \<and>
   course_schedule_slots
     (syncTeacherSlotToCourseSlot env0 slot_lab (Some old_mon) (world_of [csA])) =
     [\<lparr>cs_id = ''cs-a'', cs_course_id = Some ''C1'', cs_teacher_id = Some ''T1'',
       cs_day_of_week = Some ''Thursday'', cs_start_time = Some ''14:00'',
       cs_end_time = Some ''15:00'', cs_location = Some ''Lab 2'',
       cs_notes = Some ''bring laptops''\<rparr>] \<and>
   UpdateCourseSlotStmt (cs_id csA) (courseSlotUpdate slot0) \<notin>
     set (issued (world_of [csA, csB])
            (syncTeacherSlotToCourseSlot env0 slot0 (Some old_mon) (world_of [csA, csB]))) \<and>
   take 2 (course_schedule_slots
             (syncTeacherSlotToCourseSlot env0 slot0 (Some old_mon) (world_of [csA, csB]))) =
     [csA, csB]"
proof -
  have h1: "truthy (ts_course_id slot0)" and h2: "truthy (ts_teacher_id slot0)"
    and l1: "truthy (ts_course_id slot_lab)" and l2: "truthy (ts_teacher_id slot_lab)"
    by (simp_all add: slot0_def slot_lab_def truthy_def)
  have h3: "old_complete (Some old_mon)"
    by (simp add: old_mon_def old_complete_def truthy_def)
  have h4: "\<not> fails env0 SelectCourseSlots" and ok: "\<not> fails env0 UpdateCourseSlot"
    by (simp_all add: env0_def no_faults_def)
  have c1: "candidates (ts_course_id slot_lab) (ts_teacher_id slot_lab) (world_of [csA]) = [csA]"
    and c2: "candidates (ts_course_id slot0) (ts_teacher_id slot0) (world_of [csA, csB]) = [csA, csB]"
    by (simp_all add: example_defs slot_lab_def candidates_def)
  have d: "same_day (ov_day_of_week old_mon) csA"
    by (simp add: example_defs same_day_def)
  have n1: "\<forall>s \<in> set (candidates (ts_course_id slot_lab) (ts_teacher_id slot_lab) (world_of [csA])).
      \<not> same_slot_time (ov_day_of_week old_mon) (ov_start_time old_mon) (ov_end_time old_mon) s"
    by (simp add: c1) (simp add: example_defs same_slot_time_def)
  have n2: "\<forall>s \<in> set (candidates (ts_course_id slot0) (ts_teacher_id slot0) (world_of [csA, csB])).
      \<not> same_slot_time (ov_day_of_week old_mon) (ov_start_time old_mon) (ov_end_time old_mon) s"
    by (simp add: c2) (simp add: example_defs same_slot_time_def)
  have t1: "course_schedule_slots (world_of [csA]) = [csA]"
    and t2: "course_schedule_slots (world_of [csA, csB]) = [csA, csB]"
    by (simp_all add: world_of_def)
  have v: "ts_day_of_week slot_lab = Some ''Thursday''" "ts_start_time slot_lab = Some ''14:00''"
    "ts_end_time slot_lab = Some ''15:00''" "ts_location slot_lab = Some ''Lab 2''"
    "ts_notes slot_lab = Some ''bring laptops''" "cs_id csA = ''cs-a''"
    by (simp_all add: slot_lab_def csA_def)
  have row: "csA\<lparr>cs_day_of_week := Some ''Thursday'', cs_start_time := Some ''14:00'',
      cs_end_time := Some ''15:00'', cs_location := Some ''Lab 2'',
      cs_notes := Some ''bring laptops''\<rparr> =
      \<lparr>cs_id = ''cs-a'', cs_course_id = Some ''C1'', cs_teacher_id = Some ''T1'',
       cs_day_of_week = Some ''Thursday'', cs_start_time = Some ''14:00'',
       cs_end_time = Some ''15:00'', cs_location = Some ''Lab 2'',
       cs_notes = Some ''bring laptops''\<rparr>"
    by (simp add: csA_def)
  from day_match_only_when_sole [OF l1 l2 h3 h4 n1, where c = csA]
       day_match_only_when_sole [OF h1 h2 h3 h4 n2, where c = csA]
       c1 c2 d ok t1 t2 v row
  show ?thesis by (simp add: numeral_2_eq_2)
qed

text \<open>
  C6: when some candidate for the pair already has exactly the teacher slot's day, start
  and end, the synchronizer called without an old snapshot leaves the world as it is, the
  journal included: no update and no insert is issued, whatever the store would have
  answered, and so it is after any number of runs.
\<close>

theorem create_intent_idempotent:
  assumes "\<exists>s \<in> set (candidates (ts_course_id t) (ts_teacher_id t) w).
             same_slot_time (ts_day_of_week t) (ts_start_time t) (ts_end_time t) s"
  shows "(syncTeacherSlotToCourseSlot e t None ^^ n) w = w"
proof (induction n)
  case 0
  show ?case by simp
next
  case (Suc n)
  then show ?case using sync_no_old_match [OF assms, of e] by simp
qed

theorem create_intent_idempotent_witness:
  "csN \<in> set (candidates (ts_course_id slot0) (ts_teacher_id slot0) (world_of [csA, csN])) \<and>
   same_slot_time (ts_day_of_week slot0) (ts_start_time slot0) (ts_end_time slot0) csN \<and>
   (syncTeacherSlotToCourseSlot env0 slot0 None ^^ 3) (world_of [csA, csN]) =
     world_of [csA, csN]"
proof -
  have m: "csN \<in> set (candidates (ts_course_id slot0) (ts_teacher_id slot0) (world_of [csA, csN]))"
    by (simp add: example_defs csN_def candidates_def)
  have s: "same_slot_time (ts_day_of_week slot0) (ts_start_time slot0) (ts_end_time slot0) csN"
    by (simp add: slot0_def csN_def same_slot_time_def)
  from m s have h: "\<exists>s \<in> set (candidates (ts_course_id slot0) (ts_teacher_id slot0)
      (world_of [csA, csN])).
      same_slot_time (ts_day_of_week slot0) (ts_start_time slot0) (ts_end_time slot0) s"
    by blast
  from create_intent_idempotent [OF h, where e = env0 and n = 3] m s show ?thesis by simp
qed

text \<open>
  C7, as stated: with a complete old snapshot, exactly one candidate for the pair and that
  candidate matching the old snapshot neither exactly nor by day, the synchronizer updates
  the candidate to the new day, start, end, location and notes. The code does not behave so
  for the location and the notes. A teacher slot whose location is the empty string (the
  direct edit stores the string it is given) is synchronized onto the sole candidate, a
  Monday row in Room 1: the row's location becomes \<open>null\<close>, not the slot's location,
  because the payload is built with \<open>teacherSlot.location || null\<close>.
\<close>

theorem sole_candidate_location_counterexample:
  "old_complete (Some old_wed) \<and>
   candidates (ts_course_id slot_blank) (ts_teacher_id slot_blank) (world_of [csA]) = [csA] \<and>
   \<not> same_slot_time (ov_day_of_week old_wed) (ov_start_time old_wed) (ov_end_time old_wed) csA \<and>
   \<not> same_day (ov_day_of_week old_wed) csA \<and>
   ts_location slot_blank = Some [] \<and>
   map cs_location
     (course_schedule_slots
        (syncTeacherSlotToCourseSlot env0 slot_blank (Some old_wed) (world_of [csA]))) = [None]"
  by (simp add: example_defs slot_blank_def sync_defs)

text \<open>
  C7, amended: with a complete old snapshot and a fetch that succeeds, when the pair has
  exactly one candidate and that candidate matches the old snapshot neither exactly nor by
  day, the synchronizer issues exactly one statement, the update of that candidate (no
  insert). The payload is the new day, start and end, and the new location and notes with
  \<open>null\<close> written for an empty string as for \<open>null\<close>. Unless that update fails, the table
  is the old one with these values written into the rows of that identifier.
\<close>

theorem sole_candidate_fallback:
  assumes "truthy (ts_course_id t)" and "truthy (ts_teacher_id t)"
    and "old_complete (Some ov)"
    and "\<not> fails e SelectCourseSlots"
    and "candidates (ts_course_id t) (ts_teacher_id t) w = [c]"
    and "\<not> same_slot_time (ov_day_of_week ov) (ov_start_time ov) (ov_end_time ov) c"
    and "\<not> same_day (ov_day_of_week ov) c"
  shows "issued w (syncTeacherSlotToCourseSlot e t (Some ov) w) =
           [UpdateCourseSlotStmt (cs_id c)
              \<lparr>cu_day_of_week = ts_day_of_week t, cu_start_time = ts_start_time t,
               cu_end_time = ts_end_time t,
               cu_location = (if ts_location t = Some [] then None else ts_location t),
               cu_notes = (if ts_notes t = Some [] then None else ts_notes t)\<rparr>] \<and>
         (\<not> fails e UpdateCourseSlot \<longrightarrow>
            course_schedule_slots (syncTeacherSlotToCourseSlot e t (Some ov) w) =
              map (\<lambda>s. if cs_id s = cs_id c
                        then s\<lparr>cs_day_of_week := ts_day_of_week t, cs_start_time := ts_start_time t,
                               cs_end_time := ts_end_time t,
                               cs_location :=
                                 (if ts_location t = Some [] then None else ts_location t),
                               cs_notes := (if ts_notes t = Some [] then None else ts_notes t)\<rparr>
                        else s)
                (course_schedule_slots w))"
proof -
  from assms(5,6) have "choose_with_old ov (candidates (ts_course_id t) (ts_teacher_id t) w) = Target c"
    by (simp add: choose_sole_no_exact)
  with assms(3)
  have "choose_target t (Some ov) (candidates (ts_course_id t) (ts_teacher_id t) w) = Target c"
    by (simp add: choose_target_def)
  with assms(1,2,4) show ?thesis
    by (simp add: sync_fetched update_course_slot_world issued_def courseSlotUpdate_def
        apply_course_update_def or_null_explicit)
qed

theorem sole_candidate_fallback_witness:
  "candidates (ts_course_id slot_lab) (ts_teacher_id slot_lab) (world_of [csA]) = [csA] \<and>
   \<not> same_day (ov_day_of_week old_wed) csA \<and>
   cs_location csA = Some ''Room 1'' \<and>
   issued (world_of [csA])
     (syncTeacherSlotToCourseSlot env0 slot_lab (Some old_wed) (world_of [csA])) =
     [UpdateCourseSlotStmt ''cs-a''
        \<lparr>cu_day_of_week = Some ''Thursday'', cu_start_time = Some ''14:00'',
         cu_end_time = Some ''15:00'', cu_location = Some ''Lab 2'',
         cu_notes = Some ''bring laptops''\<rparr>] \<and>
   course_schedule_slots
     (syncTeacherSlotToCourseSlot env0 slot_lab (Some old_wed) (world_of [csA])) =
     [\<lparr>cs_id = ''cs-a'', cs_course_id = Some ''C1'', cs_teacher_id = Some ''T1'',
       cs_day_of_week = Some ''Thursday'', cs_start_time = Some ''14:00'',
       cs_end_time = Some ''15:00'', cs_location = Some ''Lab 2'',
       cs_notes = Some ''bring laptops''\<rparr>] \<and>
   issued (world_of [csA])
     (syncTeacherSlotToCourseSlot env0 slot_blank (Some old_wed) (world_of [csA])) =
     [UpdateCourseSlotStmt ''cs-a''
        \<lparr>cu_day_of_week = Some ''Thursday'', cu_start_time = Some ''14:00'',
         cu_end_time = Some ''15:00'', cu_location = None, cu_notes = None\<rparr>]"
proof -
  have h1: "truthy (ts_course_id slot_lab)" and h2: "truthy (ts_teacher_id slot_lab)"
    and b1: "truthy (ts_course_id slot_blank)" and b2: "truthy (ts_teacher_id slot_blank)"
    by (simp_all add: slot_lab_def slot_blank_def truthy_def)
  have h3: "old_complete (Some old_wed)"
    by (simp add: old_wed_def old_complete_def truthy_def)
  have h4: "\<not> fails env0 SelectCourseSlots" and ok: "\<not> fails env0 UpdateCourseSlot"
    by (simp_all add: env0_def no_faults_def)
  have h5: "candidates (ts_course_id slot_lab) (ts_teacher_id slot_lab) (world_of [csA]) = [csA]"
    and b5: "candidates (ts_course_id slot_blank) (ts_teacher_id slot_blank) (world_of [csA]) = [csA]"
    by (simp_all add: example_defs slot_lab_def slot_blank_def candidates_def)
  have h6: "\<not> same_slot_time (ov_day_of_week old_wed) (ov_start_time old_wed)
               (ov_end_time old_wed) csA"
    and h7: "\<not> same_day (ov_day_of_week old_wed) csA"
    by (simp_all add: example_defs same_slot_time_def same_day_def)
  have v: "ts_day_of_week slot_lab = Some ''Thursday''" "ts_start_time slot_lab = Some ''14:00''"
    "ts_end_time slot_lab = Some ''15:00''" "ts_location slot_lab = Some ''Lab 2''"
    "ts_notes slot_lab = Some ''bring laptops''" "cs_id csA = ''cs-a''"
    "ts_day_of_week slot_blank = Some ''Thursday''" "ts_start_time slot_blank = Some ''14:00''"
    "ts_end_time slot_blank = Some ''15:00''" "ts_location slot_blank = Some []"
    "ts_notes slot_blank = Some []"
    "course_schedule_slots (world_of [csA]) = [csA]" "cs_location csA = Some ''Room 1''"
    by (simp_all add: slot_lab_def slot_blank_def csA_def world_of_def)
  have row: "csA\<lparr>cs_day_of_week := Some ''Thursday'', cs_start_time := Some ''14:00'',
      cs_end_time := Some ''15:00'', cs_location := Some ''Lab 2'',
      cs_notes := Some ''bring laptops''\<rparr> =
      \<lparr>cs_id = ''cs-a'', cs_course_id = Some ''C1'', cs_teacher_id = Some ''T1'',
       cs_day_of_week = Some ''Thursday'', cs_start_time = Some ''14:00'',
       cs_end_time = Some ''15:00'', cs_location = Some ''Lab 2'',
       cs_notes = Some ''bring laptops''\<rparr>"
    by (simp add: csA_def)
  from sole_candidate_fallback [OF h1 h2 h3 h4 h5 h6 h7]
       sole_candidate_fallback [OF b1 b2 h3 h4 b5 h6 h7]
       ok h5 h7 v row
  show ?thesis by simp
qed

text \<open>
  C10, as stated: every run issues at most one write to the course slots, an update of one
  candidate or an insert of one row, and the row written carries exactly the teacher slot's
  day, start, end, location and notes, \<open>null\<close> standing for an absent location or notes.
  The code does not behave so for a location or notes that is present and empty. A teacher
  slot whose notes are the empty string is synchronized for a pair that has no course slot
  yet: one row is inserted, and its notes are \<open>null\<close>, not the slot's notes, because the
  row is built with \<open>teacherSlot.notes || null\<close>.
\<close>

theorem sync_write_shape_counterexample:
  "candidates (ts_course_id slot_blank) (ts_teacher_id slot_blank) (world_of []) = [] \<and>
   ts_notes slot_blank = Some [] \<and>
   map cs_notes
     (course_schedule_slots (syncTeacherSlotToCourseSlot env0 slot_blank None (world_of []))) =
     [None] \<and>
   length (issued (world_of []) (syncTeacherSlotToCourseSlot env0 slot_blank None (world_of []))) = 1"
  by (simp add: example_defs slot_blank_def sync_defs)

text \<open>
  C10, amended: every run of the synchronizer, whatever the slot, the old snapshot, the
  tables and the answers of the store, issues no statement, or one update of one fetched
  candidate (by its identifier), or one insert of one row; never two statements and never
  a delete. The payload of the update and the row of the insert carry the teacher slot's
  day, start and end, and its location and notes with \<open>null\<close> written for an empty string
  as for \<open>null\<close>; the inserted row has the slot's course and teacher. The table of course
  slots is accordingly the old one, the old one with the payload written into the rows of
  that identifier, or the old one with the row appended. When identifiers are unique in the
  table, the rows of every other (course, teacher) pair are the same before and after. The
  teacher slots, the requests, the notifications and the published events are not touched.
\<close>

theorem sync_write_shape:
  "((issued w (syncTeacherSlotToCourseSlot e t old w) = [] \<and>
     course_schedule_slots (syncTeacherSlotToCourseSlot e t old w) = course_schedule_slots w) \<or>
    (\<exists>c \<in> set (candidates (ts_course_id t) (ts_teacher_id t) w).
       issued w (syncTeacherSlotToCourseSlot e t old w) =
         [UpdateCourseSlotStmt (cs_id c)
            \<lparr>cu_day_of_week = ts_day_of_week t, cu_start_time = ts_start_time t,
             cu_end_time = ts_end_time t, cu_location = (if ts_location t = Some [] then None else ts_location t),
             cu_notes = (if ts_notes t = Some [] then None else ts_notes t)\<rparr>] \<and>
       course_schedule_slots (syncTeacherSlotToCourseSlot e t old w) =
         (if fails e UpdateCourseSlot then course_schedule_slots w
          else map (\<lambda>s. if cs_id s = cs_id c
                         then s\<lparr>cs_day_of_week := ts_day_of_week t,
                                cs_start_time := ts_start_time t, cs_end_time := ts_end_time t,
                                cs_location := (if ts_location t = Some [] then None else ts_location t),
                                cs_notes := (if ts_notes t = Some [] then None else ts_notes t)\<rparr>
                         else s)
                 (course_schedule_slots w))) \<or>
    (issued w (syncTeacherSlotToCourseSlot e t old w) =
       [InsertCourseSlotStmt
          \<lparr>cs_id = generated_id e, cs_course_id = ts_course_id t, cs_teacher_id = ts_teacher_id t,
           cs_day_of_week = ts_day_of_week t, cs_start_time = ts_start_time t,
           cs_end_time = ts_end_time t, cs_location = (if ts_location t = Some [] then None else ts_location t),
           cs_notes = (if ts_notes t = Some [] then None else ts_notes t)\<rparr>] \<and>
     course_schedule_slots (syncTeacherSlotToCourseSlot e t old w) =
       (if fails e InsertCourseSlot then course_schedule_slots w
        else course_schedule_slots w @
          [\<lparr>cs_id = generated_id e, cs_course_id = ts_course_id t, cs_teacher_id = ts_teacher_id t,
            cs_day_of_week = ts_day_of_week t, cs_start_time = ts_start_time t,
            cs_end_time = ts_end_time t, cs_location = (if ts_location t = Some [] then None else ts_location t),
            cs_notes = (if ts_notes t = Some [] then None else ts_notes t)\<rparr>]))) \<and>
   (distinct (map cs_id (course_schedule_slots w)) \<longrightarrow>
      filter (\<lambda>s. \<not> (cs_course_id s = ts_course_id t \<and> cs_teacher_id s = ts_teacher_id t))
        (course_schedule_slots (syncTeacherSlotToCourseSlot e t old w)) =
      filter (\<lambda>s. \<not> (cs_course_id s = ts_course_id t \<and> cs_teacher_id s = ts_teacher_id t))
        (course_schedule_slots w)) \<and>
   length (course_schedule_slots w) \<le>
     length (course_schedule_slots (syncTeacherSlotToCourseSlot e t old w)) \<and>
   teacher_schedule_slots (syncTeacherSlotToCourseSlot e t old w) = teacher_schedule_slots w \<and>
   schedule_change_requests (syncTeacherSlotToCourseSlot e t old w) = schedule_change_requests w \<and>
   notifications (syncTeacherSlotToCourseSlot e t old w) = notifications w \<and>
   emitted (syncTeacherSlotToCourseSlot e t old w) = emitted w"
proof -
  let ?w' = "syncTeacherSlotToCourseSlot e t old w"
  let ?other = "\<lambda>s. \<not> (cs_course_id s = ts_course_id t \<and> cs_teacher_id s = ts_teacher_id t)"
  consider (same) "?w' = w"
    | (upd) c where "c \<in> set (candidates (ts_course_id t) (ts_teacher_id t) w)"
        "?w' = snd (update_course_slot e (cs_id c) (courseSlotUpdate t) w)"
    | (ins) "?w' = snd (insert_course_slot e (newCourseSlot e t) w)"
    using sync_cases [of e t old w] by blast
  then show ?thesis
  proof cases
    case same
    then show ?thesis by (simp add: issued_same)
  next
    case ins
    then show ?thesis
      by (simp add: insert_course_slot_world issued_def newCourseSlot_def or_null_explicit)
  next
    case upd
    let ?f = "\<lambda>s. if cs_id s = cs_id c then apply_course_update (courseSlotUpdate t) s else s"
    from upd(1) have cin: "c \<in> set (course_schedule_slots w)"
      and cpair: "cs_course_id c = ts_course_id t" "cs_teacher_id c = ts_teacher_id t"
      by (simp_all add: candidates_mem)
    have frame: "filter ?other (map ?f (course_schedule_slots w)) =
        filter ?other (course_schedule_slots w)"
      if d: "distinct (map cs_id (course_schedule_slots w))"
    proof (rule filter_map_unchanged)
      fix s assume sin: "s \<in> set (course_schedule_slots w)"
      show "?other (?f s) = ?other s \<and> (?other s \<longrightarrow> ?f s = s)"
      proof (cases "cs_id s = cs_id c")
        case True
        with d cin sin have "s = c" by (rule same_id_same_row)
        with cpair show ?thesis by (simp add: apply_course_update_def)
      next
        case False
        then show ?thesis by simp
      qed
    qed
    have shape: "issued w ?w' = [UpdateCourseSlotStmt (cs_id c) (courseSlotUpdate t)]"
      "course_schedule_slots ?w' =
         (if fails e UpdateCourseSlot then course_schedule_slots w
          else map ?f (course_schedule_slots w))"
      "teacher_schedule_slots ?w' = teacher_schedule_slots w"
      "schedule_change_requests ?w' = schedule_change_requests w"
      "notifications ?w' = notifications w" "emitted ?w' = emitted w"
      using upd(2) by (simp_all add: update_course_slot_world issued_def)
    have mid: "\<exists>c \<in> set (candidates (ts_course_id t) (ts_teacher_id t) w).
       issued w ?w' =
         [UpdateCourseSlotStmt (cs_id c)
            \<lparr>cu_day_of_week = ts_day_of_week t, cu_start_time = ts_start_time t,
             cu_end_time = ts_end_time t, cu_location = (if ts_location t = Some [] then None else ts_location t),
             cu_notes = (if ts_notes t = Some [] then None else ts_notes t)\<rparr>] \<and>
       course_schedule_slots ?w' =
         (if fails e UpdateCourseSlot then course_schedule_slots w
          else map (\<lambda>s. if cs_id s = cs_id c
                         then s\<lparr>cs_day_of_week := ts_day_of_week t,
                                cs_start_time := ts_start_time t, cs_end_time := ts_end_time t,
                                cs_location := (if ts_location t = Some [] then None else ts_location t),
                                cs_notes := (if ts_notes t = Some [] then None else ts_notes t)\<rparr>
                         else s)
                 (course_schedule_slots w))"
      using upd(1) shape(1,2)
      by (intro bexI [of _ c])
         (simp_all add: courseSlotUpdate_def apply_course_update_def or_null_explicit)
    from frame shape(2) have fr: "distinct (map cs_id (course_schedule_slots w)) \<longrightarrow>
        filter ?other (course_schedule_slots ?w') = filter ?other (course_schedule_slots w)"
      by simp
    from shape(2) have len: "length (course_schedule_slots w) \<le> length (course_schedule_slots ?w')"
      by simp
    from mid fr len shape(3-6) show ?thesis by blast
  qed
qed

theorem sync_write_shape_witness:
  "distinct (map cs_id (course_schedule_slots (world_of [csA, csX]))) \<and>
   filter (\<lambda>s. \<not> (cs_course_id s = ts_course_id slot_lab \<and> cs_teacher_id s = ts_teacher_id slot_lab))
     (course_schedule_slots
        (syncTeacherSlotToCourseSlot env0 slot_lab (Some old_wed) (world_of [csA, csX]))) = [csX] \<and>
   course_schedule_slots
     (syncTeacherSlotToCourseSlot env0 slot_lab (Some old_wed) (world_of [csA, csX])) =
     [\<lparr>cs_id = ''cs-a'', cs_course_id = Some ''C1'', cs_teacher_id = Some ''T1'',
       cs_day_of_week = Some ''Thursday'', cs_start_time = Some ''14:00'',
       cs_end_time = Some ''15:00'', cs_location = Some ''Lab 2'',
       cs_notes = Some ''bring laptops''\<rparr>, csX] \<and>
   course_schedule_slots (syncTeacherSlotToCourseSlot env0 slot_lab None (world_of [csX])) =
     [csX,
      \<lparr>cs_id = ''new-1'', cs_course_id = Some ''C1'', cs_teacher_id = Some ''T1'',
       cs_day_of_week = Some ''Thursday'', cs_start_time = Some ''14:00'',
       cs_end_time = Some ''15:00'', cs_location = Some ''Lab 2'',
       cs_notes = Some ''bring laptops''\<rparr>] \<and>
   emitted (syncTeacherSlotToCourseSlot env0 slot_lab (Some old_wed) (world_of [csA, csX])) = []"
proof -
  let ?w = "world_of [csA, csX]"
  let ?w' = "syncTeacherSlotToCourseSlot env0 slot_lab (Some old_wed) ?w"
  let ?v = "world_of [csX]"
  let ?v' = "syncTeacherSlotToCourseSlot env0 slot_lab None ?v"
  have d: "distinct (map cs_id (course_schedule_slots ?w))"
    by (simp add: world_of_def csA_def csX_def)
  have f: "filter (\<lambda>s. \<not> (cs_course_id s = ts_course_id slot_lab \<and>
      cs_teacher_id s = ts_teacher_id slot_lab)) (course_schedule_slots ?w) = [csX]"
    by (simp add: world_of_def csA_def csX_def slot_lab_def)
  have e: "emitted ?w = []" and ok: "\<not> fails env0 UpdateCourseSlot" "\<not> fails env0 InsertCourseSlot"
    by (simp_all add: world_of_def env0_def no_faults_def)
  have c: "candidates (ts_course_id slot_lab) (ts_teacher_id slot_lab) ?w = [csA]"
    and c': "candidates (ts_course_id slot_lab) (ts_teacher_id slot_lab) ?v = []"
    by (simp_all add: example_defs slot_lab_def csX_def candidates_def)
  have v: "ts_day_of_week slot_lab = Some ''Thursday''" "ts_start_time slot_lab = Some ''14:00''"
    "ts_end_time slot_lab = Some ''15:00''" "ts_location slot_lab = Some ''Lab 2''"
    "ts_notes slot_lab = Some ''bring laptops''" "ts_course_id slot_lab = Some ''C1''"
    "ts_teacher_id slot_lab = Some ''T1''" "generated_id env0 = ''new-1''"
    "course_schedule_slots ?w = [csA, csX]" "course_schedule_slots ?v = [csX]"
    "cs_id csA = ''cs-a''" "cs_id csX = ''cs-x''"
    by (simp_all add: slot_lab_def env0_def world_of_def csA_def csX_def)
  have row: "csA\<lparr>cs_day_of_week := Some ''Thursday'', cs_start_time := Some ''14:00'',
      cs_end_time := Some ''15:00'', cs_location := Some ''Lab 2'',
      cs_notes := Some ''bring laptops''\<rparr> =
      \<lparr>cs_id = ''cs-a'', cs_course_id = Some ''C1'', cs_teacher_id = Some ''T1'',
       cs_day_of_week = Some ''Thursday'', cs_start_time = Some ''14:00'',
       cs_end_time = Some ''15:00'', cs_location = Some ''Lab 2'',
       cs_notes = Some ''bring laptops''\<rparr>"
    by (simp add: csA_def)
  have some: "issued ?w ?w' \<noteq> []" "\<forall>r. issued ?w ?w' \<noteq> [InsertCourseSlotStmt r]"
    by (simp_all add: example_defs slot_lab_def csX_def sync_defs)
  have some': "issued ?v ?v' \<noteq> []"
    by (simp add: example_defs slot_lab_def csX_def sync_defs)
  from sync_write_shape [of ?w env0 slot_lab "Some old_wed"] d f e ok c v row some
  have a: "filter (\<lambda>s. \<not> (cs_course_id s = ts_course_id slot_lab \<and>
        cs_teacher_id s = ts_teacher_id slot_lab)) (course_schedule_slots ?w') = [csX]"
    "course_schedule_slots ?w' =
       [\<lparr>cs_id = ''cs-a'', cs_course_id = Some ''C1'', cs_teacher_id = Some ''T1'',
         cs_day_of_week = Some ''Thursday'', cs_start_time = Some ''14:00'',
         cs_end_time = Some ''15:00'', cs_location = Some ''Lab 2'',
         cs_notes = Some ''bring laptops''\<rparr>, csX]"
    "emitted ?w' = []"
    by auto
  from sync_write_shape [of ?v env0 slot_lab None] ok c' v some'
  have b: "course_schedule_slots ?v' =
      [csX,
       \<lparr>cs_id = ''new-1'', cs_course_id = Some ''C1'', cs_teacher_id = Some ''T1'',
        cs_day_of_week = Some ''Thursday'', cs_start_time = Some ''14:00'',
        cs_end_time = Some ''15:00'', cs_location = Some ''Lab 2'',
        cs_notes = Some ''bring laptops''\<rparr>]"
    by auto
  from d a b show ?thesis by simp
qed

section \<open>The workflow: the claims\<close>

text \<open>
  C3: for a pending request that the fetch returns, approve issues an update of a teacher
  slot exactly when one of the three requested fields is present (not \<open>null\<close> and not the
  empty string); the current values play no part. When one is, the first statement is the
  update of the request's slot whose payload has exactly the present requested fields, and,
  the update succeeding, the rows of that slot have each present requested value in place
  of the old one and keep the others. When none is, approve answers 200 and issues two
  statements and no other (no update of a slot, no statement of the synchronizer): the
  update that marks the request approved with the admin and the time, and the insert of
  one notification for the requesting teacher; both slot tables stay as they are, and the
  only event is the teacher-notification refresh.
\<close>

theorem approve_updates_iff_requested:
  assumes "\<not> fails e SelectRequest"
    and "filter (\<lambda>x. rq_id x = rid \<and> rq_status x = Pending) (schedule_change_requests w) = [r]"
  shows "((\<exists>i u. UpdateTeacherSlotStmt i u \<in> set (issued w (snd (approve e rid admin w)))) \<longleftrightarrow>
            rq_requested_day_of_week r \<notin> {None, Some []} \<or> rq_requested_start_time r \<notin> {None, Some []} \<or>
            rq_requested_end_time r \<notin> {None, Some []}) \<and>
         (rq_requested_day_of_week r \<notin> {None, Some []} \<or> rq_requested_start_time r \<notin> {None, Some []} \<or>
            rq_requested_end_time r \<notin> {None, Some []} \<longrightarrow>
            (\<exists>js. issued w (snd (approve e rid admin w)) =
                    UpdateTeacherSlotStmt (rq_slot_id r)
                      \<lparr>tu_day_of_week =
                         (if rq_requested_day_of_week r = Some [] then None else rq_requested_day_of_week r),
                       tu_start_time =
                         (if rq_requested_start_time r = Some [] then None else rq_requested_start_time r),
                       tu_end_time =
                         (if rq_requested_end_time r = Some [] then None else rq_requested_end_time r),
                       tu_course_id = None, tu_location = None, tu_notes = None\<rparr> # js) \<and>
            (\<forall>s. \<not> fails e UpdateTeacherSlot \<and>
                 filter (\<lambda>x. ts_id x = rq_slot_id r) (teacher_schedule_slots w) = [s] \<longrightarrow>
                 teacher_schedule_slots (snd (approve e rid admin w)) =
                   map (\<lambda>x. if ts_id x = rq_slot_id r
                             then x\<lparr>ts_day_of_week :=
                                   (if rq_requested_day_of_week r \<in> {None, Some []} then ts_day_of_week x
                                    else rq_requested_day_of_week r),
                                 ts_start_time :=
                                   (if rq_requested_start_time r \<in> {None, Some []} then ts_start_time x
                                    else rq_requested_start_time r),
                                 ts_end_time :=
                                   (if rq_requested_end_time r \<in> {None, Some []} then ts_end_time x
                                    else rq_requested_end_time r)\<rparr>
                             else x)
                     (teacher_schedule_slots w))) \<and>
         (\<not> (rq_requested_day_of_week r \<notin> {None, Some []} \<or> rq_requested_start_time r \<notin> {None, Some []} \<or>
            rq_requested_end_time r \<notin> {None, Some []}) \<longrightarrow>
            res_status (fst (approve e rid admin w)) = 200 \<and>
            res_message (fst (approve e rid admin w)) = ''Schedule change request approved'' \<and>
            res_slot (fst (approve e rid admin w)) = None \<and>
            issued w (snd (approve e rid admin w)) =
              [MarkApprovedStmt rid (Some admin) (now_iso e),
               InsertNotificationsStmt
                 [\<lparr>nt_recipient_id = rq_teacher_id r, nt_sender_id = Some admin,
                  nt_title = ''Schedule Change Approved'',
                  nt_message =
                    ''Your schedule change request has been approved. No changes were needed.'',
                  nt_channels = [''in_app''], nt_audience_scope = ''custom'',
                  nt_course_id = rq_course_id r\<rparr>]] \<and>
            teacher_schedule_slots (snd (approve e rid admin w)) = teacher_schedule_slots w \<and>
            course_schedule_slots (snd (approve e rid admin w)) = course_schedule_slots w \<and>
            (\<not> fails e UpdateRequest \<longrightarrow>
               schedule_change_requests (snd (approve e rid admin w)) =
                 map (\<lambda>x. if rq_id x = rid
                           then x\<lparr>rq_status := Approved, rq_approved_by := Some admin,
                                  rq_approved_at := Some (now_iso e)\<rparr>
                           else x)
                   (schedule_change_requests w)) \<and>
            (\<not> fails e InsertTeacherNotification \<longrightarrow>
               notifications (snd (approve e rid admin w)) =
                 notifications w @
                 [\<lparr>nt_recipient_id = rq_teacher_id r, nt_sender_id = Some admin,
                  nt_title = ''Schedule Change Approved'',
                  nt_message =
                    ''Your schedule change request has been approved. No changes were needed.'',
                  nt_channels = [''in_app''], nt_audience_scope = ''custom'',
                  nt_course_id = rq_course_id r\<rparr>]) \<and>
            emitted (snd (approve e rid admin w)) =
              emitted w @
              (if io_registered e then [TeacherNotificationsRefresh (rq_teacher_id r)] else []))"
proof (cases "has_keys (requested_updates r)")
  case True
  from assms have sel: "select_pending_request e rid w = Inr (Some r)"
    by (rule select_pending_one)
  with True have ap: "approve e rid admin w =
      approve_with_updates e rid admin r (requested_updates r) w"
    by (simp add: approve_def)
  from True have req: "rq_requested_day_of_week r \<notin> {None, Some []} \<or> rq_requested_start_time r \<notin> {None, Some []} \<or>
            rq_requested_end_time r \<notin> {None, Some []}"
    by (simp add: has_keys_requested truthy_explicit)
  obtain js where js: "journal (snd (approve e rid admin w)) =
      journal w @ UpdateTeacherSlotStmt (rq_slot_id r) (requested_updates r) # js"
    using approve_with_updates_trace [of e rid admin r "requested_updates r" w] ap by auto
  then have iss: "issued w (snd (approve e rid admin w)) =
      UpdateTeacherSlotStmt (rq_slot_id r)
        \<lparr>tu_day_of_week =
                         (if rq_requested_day_of_week r = Some [] then None else rq_requested_day_of_week r),
                       tu_start_time =
                         (if rq_requested_start_time r = Some [] then None else rq_requested_start_time r),
                       tu_end_time =
                         (if rq_requested_end_time r = Some [] then None else rq_requested_end_time r),
                       tu_course_id = None, tu_location = None, tu_notes = None\<rparr> # js"
    by (simp add: issued_def requested_updates_explicit [symmetric])
  have tbl: "teacher_schedule_slots (snd (approve e rid admin w)) =
      map (\<lambda>x. if ts_id x = rq_slot_id r
                then x\<lparr>ts_day_of_week :=
                                   (if rq_requested_day_of_week r \<in> {None, Some []} then ts_day_of_week x
                                    else rq_requested_day_of_week r),
                                 ts_start_time :=
                                   (if rq_requested_start_time r \<in> {None, Some []} then ts_start_time x
                                    else rq_requested_start_time r),
                                 ts_end_time :=
                                   (if rq_requested_end_time r \<in> {None, Some []} then ts_end_time x
                                    else rq_requested_end_time r)\<rparr>
                else x)
        (teacher_schedule_slots w)"
    if "\<not> fails e UpdateTeacherSlot \<and>
        filter (\<lambda>x. ts_id x = rq_slot_id r) (teacher_schedule_slots w) = [s]" for s
    using that approve_with_updates_trace [of e rid admin r "requested_updates r" w] ap
    by (simp add: update_teacher_slot_one apply_requested_explicit)
  from iss have "\<exists>i u. UpdateTeacherSlotStmt i u \<in> set (issued w (snd (approve e rid admin w)))"
    by auto
  with req iss tbl show ?thesis by blast
next
  case False
  from assms have sel: "select_pending_request e rid w = Inr (Some r)"
    by (rule select_pending_one)
  with False have ap: "approve e rid admin w = approve_without_updates e rid admin r w"
    by (simp add: approve_def)
  from False have req: "\<not> (rq_requested_day_of_week r \<notin> {None, Some []} \<or> rq_requested_start_time r \<notin> {None, Some []} \<or>
            rq_requested_end_time r \<notin> {None, Some []})"
    by (simp add: has_keys_requested truthy_explicit)
  have facts:
    "res_status (fst (approve e rid admin w)) = 200"
    "res_message (fst (approve e rid admin w)) = ''Schedule change request approved''"
    "res_slot (fst (approve e rid admin w)) = None"
    "issued w (snd (approve e rid admin w)) =
       [MarkApprovedStmt rid (Some admin) (now_iso e),
        InsertNotificationsStmt
          [\<lparr>nt_recipient_id = rq_teacher_id r, nt_sender_id = Some admin,
                  nt_title = ''Schedule Change Approved'',
                  nt_message =
                    ''Your schedule change request has been approved. No changes were needed.'',
                  nt_channels = [''in_app''], nt_audience_scope = ''custom'',
                  nt_course_id = rq_course_id r\<rparr>]]"
    "teacher_schedule_slots (snd (approve e rid admin w)) = teacher_schedule_slots w"
    "course_schedule_slots (snd (approve e rid admin w)) = course_schedule_slots w"
    "\<not> fails e UpdateRequest \<longrightarrow>
       schedule_change_requests (snd (approve e rid admin w)) =
         map (\<lambda>x. if rq_id x = rid
                   then x\<lparr>rq_status := Approved, rq_approved_by := Some admin,
                          rq_approved_at := Some (now_iso e)\<rparr>
                   else x)
           (schedule_change_requests w)"
    "\<not> fails e InsertTeacherNotification \<longrightarrow>
       notifications (snd (approve e rid admin w)) =
         notifications w @
         [\<lparr>nt_recipient_id = rq_teacher_id r, nt_sender_id = Some admin,
                  nt_title = ''Schedule Change Approved'',
                  nt_message =
                    ''Your schedule change request has been approved. No changes were needed.'',
                  nt_channels = [''in_app''], nt_audience_scope = ''custom'',
                  nt_course_id = rq_course_id r\<rparr>]"
    "emitted (snd (approve e rid admin w)) =
       emitted w @
       (if io_registered e then [TeacherNotificationsRefresh (rq_teacher_id r)] else [])"
    by (simp_all add: ap approve_without_updates_def Let_def mark_approved_world
        insert_notifications_world emit_world issued_def respond_def teacher_notification_def)
  from facts(4) have "\<not> (\<exists>i u. UpdateTeacherSlotStmt i u \<in>
      set (issued w (snd (approve e rid admin w))))"
    by simp
  with req facts show ?thesis by blast
qed

theorem approve_updates_iff_requested_witness:
  "filter (\<lambda>x. rq_id x = ''R2'' \<and> rq_status x = Pending) (schedule_change_requests world2) =
     [req_plain] \<and>
   issued world2 (snd (approve env0 ''R2'' ''A1'' world2)) =
     [MarkApprovedStmt ''R2'' (Some ''A1'') ''2026-01-01T00:00:00.000Z'',
      InsertNotificationsStmt
        [\<lparr>nt_recipient_id = Some ''T1'', nt_sender_id = Some ''A1'',
          nt_title = ''Schedule Change Approved'',
          nt_message =
            ''Your schedule change request has been approved. No changes were needed.'',
          nt_channels = [''in_app''], nt_audience_scope = ''custom'',
          nt_course_id = Some ''C1''\<rparr>]] \<and>
   teacher_schedule_slots (snd (approve env0 ''R2'' ''A1'' world2)) = [tslot1] \<and>
   course_schedule_slots (snd (approve env0 ''R2'' ''A1'' world2)) = [cs1] \<and>
   map rq_status (schedule_change_requests (snd (approve env0 ''R2'' ''A1'' world2))) =
     [Pending, Approved] \<and>
   map nt_recipient_id (notifications (snd (approve env0 ''R2'' ''A1'' world2))) =
     [Some ''T1''] \<and>
   emitted (snd (approve env0 ''R2'' ''A1'' world2)) =
     [TeacherNotificationsRefresh (Some ''T1'')] \<and>
   rq_requested_day_of_week req_same = rq_current_day_of_week req_same \<and>
   (\<exists>js. issued world2 (snd (approve env0 ''R4'' ''A1'' world2)) =
           UpdateTeacherSlotStmt ''S1''
             \<lparr>tu_day_of_week = Some ''Tuesday'', tu_start_time = None, tu_end_time = None,
              tu_course_id = None, tu_location = None, tu_notes = None\<rparr> # js) \<and>
   (\<exists>js. issued world1 (snd (approve env0 ''R1'' ''A1'' world1)) =
           UpdateTeacherSlotStmt ''S1''
             \<lparr>tu_day_of_week = Some ''Wednesday'', tu_start_time = Some ''14:00'',
              tu_end_time = Some ''15:00'',
              tu_course_id = None, tu_location = None, tu_notes = None\<rparr> # js) \<and>
   ts_day_of_week tslot1 = Some ''Tuesday'' \<and>
   teacher_schedule_slots (snd (approve env0 ''R1'' ''A1'' world1)) =
     [\<lparr>ts_id = ''S1'', ts_teacher_id = Some ''T1'', ts_course_id = Some ''C1'',
       ts_day_of_week = Some ''Wednesday'', ts_start_time = Some ''14:00'',
       ts_end_time = Some ''15:00'', ts_location = Some ''Room 1'', ts_notes = None\<rparr>]"
proof -
  have h1: "\<not> fails env0 SelectRequest"
    and ok: "\<not> fails env0 UpdateRequest" "\<not> fails env0 InsertTeacherNotification"
      "\<not> fails env0 UpdateTeacherSlot" "io_registered env0"
      "now_iso env0 = ''2026-01-01T00:00:00.000Z''"
    by (simp_all add: env0_def no_faults_def)
  have p2: "filter (\<lambda>x. rq_id x = ''R2'' \<and> rq_status x = Pending)
      (schedule_change_requests world2) = [req_plain]"
    and p4: "filter (\<lambda>x. rq_id x = ''R4'' \<and> rq_status x = Pending)
      (schedule_change_requests world2) = [req_same]"
    and p1: "filter (\<lambda>x. rq_id x = ''R1'' \<and> rq_status x = Pending)
      (schedule_change_requests world1) = [req_move]"
    by (simp_all add: world2_def handler_example_defs req_same_def)
  have s4: "filter (\<lambda>x. ts_id x = rq_slot_id req_same) (teacher_schedule_slots world2) = [tslot1]"
    and s1: "filter (\<lambda>x. ts_id x = rq_slot_id req_move) (teacher_schedule_slots world1) = [tslot1]"
    by (simp_all add: world2_def world1_def req_same_def req_move_def tslot1_def)
  have v: "teacher_schedule_slots world2 = [tslot1]" "course_schedule_slots world2 = [cs1]"
    "teacher_schedule_slots world1 = [tslot1]"
    "schedule_change_requests world2 = [req_same, req_plain]" "emitted world2 = []"
    "notifications world2 = []"
    "rq_id req_same = ''R4''" "rq_id req_plain = ''R2''" "rq_status req_same = Pending"
    "rq_teacher_id req_plain = Some ''T1''" "rq_course_id req_plain = Some ''C1''"
    "rq_slot_id req_same = ''S1''" "rq_slot_id req_move = ''S1''"
    "ts_id tslot1 = ''S1''"
    "rq_requested_day_of_week req_plain = None" "rq_requested_start_time req_plain = None"
    "rq_requested_end_time req_plain = None"
    "rq_requested_day_of_week req_same = Some ''Tuesday''"
    "rq_requested_start_time req_same = None" "rq_requested_end_time req_same = None"
    "rq_requested_day_of_week req_move = Some ''Wednesday''"
    "rq_requested_start_time req_move = Some ''14:00''"
    "rq_requested_end_time req_move = Some ''15:00''"
    by (simp_all add: world2_def world1_def req_same_def req_plain_def req_move_def tslot1_def)
  have same: "rq_requested_day_of_week req_same = rq_current_day_of_week req_same"
    "ts_day_of_week tslot1 = Some ''Tuesday''"
    by (simp_all add: req_same_def tslot1_def)
  have row: "tslot1\<lparr>ts_day_of_week := Some ''Wednesday'', ts_start_time := Some ''14:00'',
      ts_end_time := Some ''15:00''\<rparr> =
      \<lparr>ts_id = ''S1'', ts_teacher_id = Some ''T1'', ts_course_id = Some ''C1'',
       ts_day_of_week = Some ''Wednesday'', ts_start_time = Some ''14:00'',
       ts_end_time = Some ''15:00'', ts_location = Some ''Room 1'', ts_notes = None\<rparr>"
    by (simp add: tslot1_def)
  have a: "issued world2 (snd (approve env0 ''R2'' ''A1'' world2)) =
      [MarkApprovedStmt ''R2'' (Some ''A1'') ''2026-01-01T00:00:00.000Z'',
       InsertNotificationsStmt
         [\<lparr>nt_recipient_id = Some ''T1'', nt_sender_id = Some ''A1'',
           nt_title = ''Schedule Change Approved'',
           nt_message =
             ''Your schedule change request has been approved. No changes were needed.'',
           nt_channels = [''in_app''], nt_audience_scope = ''custom'',
           nt_course_id = Some ''C1''\<rparr>]]"
    "teacher_schedule_slots (snd (approve env0 ''R2'' ''A1'' world2)) = [tslot1]"
    "course_schedule_slots (snd (approve env0 ''R2'' ''A1'' world2)) = [cs1]"
    "map rq_status (schedule_change_requests (snd (approve env0 ''R2'' ''A1'' world2))) =
       [Pending, Approved]"
    "map nt_recipient_id (notifications (snd (approve env0 ''R2'' ''A1'' world2))) =
       [Some ''T1'']"
    "emitted (snd (approve env0 ''R2'' ''A1'' world2)) =
       [TeacherNotificationsRefresh (Some ''T1'')]"
    using approve_updates_iff_requested [OF h1 p2, of "''A1''"] ok v by simp_all
  have b: "\<exists>js. issued world2 (snd (approve env0 ''R4'' ''A1'' world2)) =
      UpdateTeacherSlotStmt ''S1''
        \<lparr>tu_day_of_week = Some ''Tuesday'', tu_start_time = None, tu_end_time = None,
         tu_course_id = None, tu_location = None, tu_notes = None\<rparr> # js"
    using approve_updates_iff_requested [OF h1 p4, of "''A1''"] v by simp
  have c: "\<exists>js. issued world1 (snd (approve env0 ''R1'' ''A1'' world1)) =
      UpdateTeacherSlotStmt ''S1''
        \<lparr>tu_day_of_week = Some ''Wednesday'', tu_start_time = Some ''14:00'',
         tu_end_time = Some ''15:00'',
         tu_course_id = None, tu_location = None, tu_notes = None\<rparr> # js"
    "teacher_schedule_slots (snd (approve env0 ''R1'' ''A1'' world1)) =
       [\<lparr>ts_id = ''S1'', ts_teacher_id = Some ''T1'', ts_course_id = Some ''C1'',
         ts_day_of_week = Some ''Wednesday'', ts_start_time = Some ''14:00'',
         ts_end_time = Some ''15:00'', ts_location = Some ''Room 1'', ts_notes = None\<rparr>]"
    using approve_updates_iff_requested [OF h1 p1, of "''A1''"] ok s1 v row by simp_all
  from p2 a b c same show ?thesis by simp
qed

text \<open>
  C4: for a pending request that the fetch returns and that has a truthy requested field,
  a failure of the update of the teacher slot makes approve answer 500; and when that
  update succeeds, approve answers 200 with the updated slot whichever of the three store
  calls of the synchronizer (the fetch of the candidates, the update, the insert) fail.
  The same holds for the direct edit of a teacher slot: once the slot and, if one is
  given, the course are found and the update of the teacher slot succeeds, the edit
  answers 200 whichever calls of the synchronizer fail.
\<close>

theorem approve_error_asymmetry:
  assumes "\<not> fails e SelectRequest"
    and "filter (\<lambda>x. rq_id x = rid \<and> rq_status x = Pending) (schedule_change_requests w) = [r]"
    and "truthy (rq_requested_day_of_week r) \<or> truthy (rq_requested_start_time r) \<or>
         truthy (rq_requested_end_time r)"
  shows "(fails e UpdateTeacherSlot \<longrightarrow>
            fst (approve e rid admin w) = server_error \<and> res_status server_error = 500) \<and>
         (\<forall>s. \<not> fails e UpdateTeacherSlot \<and>
              filter (\<lambda>x. ts_id x = rq_slot_id r) (teacher_schedule_slots w) = [s] \<longrightarrow>
              (\<forall>a b c.
                 fst (approve (with_sync_faults a b c e) rid admin w) =
                   respond_slot ''Schedule change approved and slot updated successfully''
                     (apply_teacher_update (requested_updates r) s) \<and>
                 res_status (fst (approve (with_sync_faults a b c e) rid admin w)) = 200)) \<and>
         (\<forall>slotId body existing.
            \<not> fails e SelectTeacherSlot \<and>
            filter (\<lambda>x. ts_id x = slotId) (teacher_schedule_slots w) = [existing] \<and>
            (\<not> truthy (eb_courseId body) \<or>
             \<not> fails e SelectCourse \<and>
             length (filter (\<lambda>x. Some (co_id x) = eb_courseId body) (courses w)) = 1) \<and>
            \<not> fails e UpdateTeacherSlot \<longrightarrow>
            (\<forall>a b c. res_status (fst (edit_teacher_slot (with_sync_faults a b c e) slotId body w)) =
                       200))"
proof (intro conjI allI impI)
  from assms(1,2) have sel: "select_pending_request e rid w = Inr (Some r)"
    by (rule select_pending_one)
  from assms(3) have keys: "has_keys (requested_updates r)"
    by (simp add: has_keys_requested)
  {
    assume "fails e UpdateTeacherSlot"
    then have "update_teacher_slot e (rq_slot_id r) (requested_updates r) w =
        (Inl StorageError, log_stmt (UpdateTeacherSlotStmt (rq_slot_id r) (requested_updates r)) w)"
      by (simp add: update_teacher_slot_def Let_def)
    with sel keys show "fst (approve e rid admin w) = server_error"
      by (simp add: approve_def approve_with_updates_def)
  }
  show "res_status server_error = 500"
    by (simp add: server_error_def respond_def)
next
  fix s :: teacher_slot and a b c
  let ?e = "with_sync_faults a b c e"
  assume up: "\<not> fails e UpdateTeacherSlot \<and>
      filter (\<lambda>x. ts_id x = rq_slot_id r) (teacher_schedule_slots w) = [s]"
  from assms(1,2) have sel: "select_pending_request ?e rid w = Inr (Some r)"
    by (intro select_pending_one) (simp_all add: with_sync_faults_def)
  from assms(3) have keys: "has_keys (requested_updates r)"
    by (simp add: has_keys_requested)
  from up have "\<not> fails ?e UpdateTeacherSlot" by (simp add: with_sync_faults_def)
  with up have "fst (update_teacher_slot ?e (rq_slot_id r) (requested_updates r) w) =
      Inr (apply_teacher_update (requested_updates r) s)"
    by (simp add: update_teacher_slot_one)
  with sel keys show res: "fst (approve ?e rid admin w) =
      respond_slot ''Schedule change approved and slot updated successfully''
        (apply_teacher_update (requested_updates r) s)"
    by (cases "update_teacher_slot ?e (rq_slot_id r) (requested_updates r) w")
       (simp add: approve_def approve_with_updates_def Let_def)
  then show "res_status (fst (approve ?e rid admin w)) = 200"
    by (simp add: respond_slot_def)
next
  fix slotId :: ident and body :: edit_body and existing :: teacher_slot and a b c
  let ?e = "with_sync_faults a b c e"
  assume h: "\<not> fails e SelectTeacherSlot \<and>
      filter (\<lambda>x. ts_id x = slotId) (teacher_schedule_slots w) = [existing] \<and>
      (\<not> truthy (eb_courseId body) \<or>
       \<not> fails e SelectCourse \<and>
       length (filter (\<lambda>x. Some (co_id x) = eb_courseId body) (courses w)) = 1) \<and>
      \<not> fails e UpdateTeacherSlot"
  then have ex: "select_teacher_slot ?e slotId w = Inr (Some existing)"
    by (simp add: select_teacher_slot_def maybeSingle_def with_sync_faults_def)
  from h have up: "\<not> fails ?e UpdateTeacherSlot" by (simp add: with_sync_faults_def)
  have wr: "res_status (fst (edit_write ?e slotId body existing courseRow w)) = 200" for courseRow
    using up h
    by (simp add: edit_write_def update_teacher_slot_one Let_def respond_slot_def)
  show "res_status (fst (edit_teacher_slot ?e slotId body w)) = 200"
  proof (cases "truthy (eb_courseId body)")
    case False
    with ex wr show ?thesis by (simp add: edit_teacher_slot_def)
  next
    case True
    with h obtain c where "filter (\<lambda>x. Some (co_id x) = eb_courseId body) (courses w) = [c]"
      by (auto simp: length_Suc_conv)
    with True h have "select_course ?e SelectCourse (eb_courseId body) w = Inr (Some c)"
      by (simp add: select_course_def maybeSingle_def with_sync_faults_def)
    with True ex wr show ?thesis by (simp add: edit_teacher_slot_def)
  qed
qed

theorem approve_error_asymmetry_witness:
  "fails env_slot_fails UpdateTeacherSlot \<and>
   res_status (fst (approve env_slot_fails ''R1'' ''A1'' world1)) = 500 \<and>
   fails (with_sync_faults True True True env0) SelectCourseSlots \<and>
   fails (with_sync_faults True True True env0) UpdateCourseSlot \<and>
   fails (with_sync_faults True True True env0) InsertCourseSlot \<and>
   res_status (fst (approve (with_sync_faults True True True env0) ''R1'' ''A1'' world1)) = 200 \<and>
   res_status (fst (edit_teacher_slot (with_sync_faults True True True env0) ''S1'' edit1 world1)) =
     200"
proof -
  have p: "filter (\<lambda>x. rq_id x = ''R1'' \<and> rq_status x = Pending)
      (schedule_change_requests world1) = [req_move]"
    by (simp add: handler_example_defs)
  have y: "truthy (rq_requested_day_of_week req_move) \<or>
      truthy (rq_requested_start_time req_move) \<or> truthy (rq_requested_end_time req_move)"
    by (simp add: req_move_def truthy_def)
  have f1: "\<not> fails env_slot_fails SelectRequest" and f2: "fails env_slot_fails UpdateTeacherSlot"
    by (simp_all add: env_slot_fails_def env0_def no_faults_def)
  have g1: "\<not> fails env0 SelectRequest" and g2: "\<not> fails env0 UpdateTeacherSlot"
    and g3: "\<not> fails env0 SelectTeacherSlot"
    by (simp_all add: env0_def no_faults_def)
  have s: "filter (\<lambda>x. ts_id x = rq_slot_id req_move) (teacher_schedule_slots world1) = [tslot1]"
    "filter (\<lambda>x. ts_id x = ''S1'') (teacher_schedule_slots world1) = [tslot1]"
    by (simp_all add: handler_example_defs)
  have c: "\<not> truthy (eb_courseId edit1)"
    by (simp add: edit1_def truthy_def)
  have sf: "fails (with_sync_faults True True True env0) SelectCourseSlots"
    "fails (with_sync_faults True True True env0) UpdateCourseSlot"
    "fails (with_sync_faults True True True env0) InsertCourseSlot"
    by (simp_all add: with_sync_faults_def)
  have a: "res_status (fst (approve env_slot_fails ''R1'' ''A1'' world1)) = 500"
    using approve_error_asymmetry [OF f1 p y, of "''A1''"] f2 by simp
  have b: "res_status (fst (approve (with_sync_faults True True True env0) ''R1'' ''A1'' world1)) =
      200"
    using approve_error_asymmetry [OF g1 p y, of "''A1''"] g2 s(1) by blast
  have d: "res_status (fst (edit_teacher_slot (with_sync_faults True True True env0) ''S1'' edit1
      world1)) = 200"
    using approve_error_asymmetry [OF g1 p y, of "''A1''"] g2 g3 s(2) c by blast
  from f2 sf a b d show ?thesis by simp
qed

text \<open>
  C5: when every row of \<open>schedule_change_requests\<close> with the identifier is approved or
  declined and the fetch of the request does not fail, approve and decline both answer
  404 ("not found or already processed") and return the world they were given: no row of
  any table changes, no statement is issued, no event is published.
\<close>

theorem processed_requests_terminal:
  assumes "\<forall>r \<in> set (schedule_change_requests w).
             rq_id r = rid \<longrightarrow> rq_status r = Approved \<or> rq_status r = Declined"
    and "\<not> fails e SelectRequest"
  shows "approve e rid admin w = (not_found_or_processed, w) \<and>
         decline e rid admin reason w = (not_found_or_processed, w) \<and>
         res_status not_found_or_processed = 404"
proof -
  from assms(1)
  have "\<forall>r \<in> set (schedule_change_requests w). rq_id r = rid \<longrightarrow> rq_status r \<noteq> Pending"
    by auto
  with assms(2) have "select_pending_request e rid w = Inr None"
    by (rule select_pending_none)
  then show ?thesis
    by (simp add: approve_def decline_def not_found_or_processed_def respond_def)
qed

theorem processed_requests_terminal_witness:
  "req_done \<in> set (schedule_change_requests world1) \<and> rq_id req_done = ''R3'' \<and>
   rq_status req_done = Approved \<and>
   approve env0 ''R3'' ''A2'' world1 = (not_found_or_processed, world1) \<and>
   decline env0 ''R3'' ''A2'' (Some ''too late'') world1 = (not_found_or_processed, world1) \<and>
   res_status not_found_or_processed = 404"
proof -
  have h1: "\<forall>r \<in> set (schedule_change_requests world1).
      rq_id r = ''R3'' \<longrightarrow> rq_status r = Approved \<or> rq_status r = Declined"
    by (simp add: handler_example_defs)
  have h2: "\<not> fails env0 SelectRequest"
    by (simp add: env0_def no_faults_def)
  have m: "req_done \<in> set (schedule_change_requests world1)" "rq_id req_done = ''R3''"
    "rq_status req_done = Approved"
    by (simp_all add: world1_def req_done_def)
  from processed_requests_terminal [OF h1 h2] m show ?thesis by simp
qed

text \<open>
  C8: for a pending request that the fetch returns, decline answers 200 and leaves both
  slot tables as they are. It issues two statements and no other: the update that marks
  the request declined with the admin, the time and the reason the admin gave (\<open>null\<close>
  when none or an empty one was given), and the insert of one notification whose recipient
  is the requesting teacher and whose message ends with the reason when one is given.
  Unless the store fails on them, the rows of that identifier are declined and carry the
  admin, the time and that reason, and the notification is in the table. With the socket
  server registered it publishes the teacher refresh and the admin-notification refresh.
\<close>

theorem decline_frame:
  assumes "\<not> fails e SelectRequest"
    and "filter (\<lambda>r. rq_id r = rid \<and> rq_status r = Pending) (schedule_change_requests w) = [r]"
  shows "res_status (fst (decline e rid admin reason w)) = 200 \<and>
         teacher_schedule_slots (snd (decline e rid admin reason w)) = teacher_schedule_slots w \<and>
         course_schedule_slots (snd (decline e rid admin reason w)) = course_schedule_slots w \<and>
         issued w (snd (decline e rid admin reason w)) =
           [MarkDeclinedStmt rid (Some admin) (now_iso e) (if reason = Some [] then None else reason),
            InsertNotificationsStmt
              [teacher_notification admin r ''Schedule Change Declined'' (declined_message reason)]] \<and>
         nt_recipient_id
           (teacher_notification admin r ''Schedule Change Declined'' (declined_message reason)) =
           rq_teacher_id r \<and>
         (\<forall>s. reason = Some s \<and> s \<noteq> [] \<longrightarrow>
            nt_message
              (teacher_notification admin r ''Schedule Change Declined'' (declined_message reason)) =
              ''Your schedule change request has been declined. Reason: '' @ s) \<and>
         (reason = None \<or> reason = Some [] \<longrightarrow>
            nt_message
              (teacher_notification admin r ''Schedule Change Declined'' (declined_message reason)) =
              ''Your schedule change request has been declined.'') \<and>
         (\<not> fails e UpdateRequest \<longrightarrow>
            schedule_change_requests (snd (decline e rid admin reason w)) =
              map (\<lambda>x. if rq_id x = rid
                        then x\<lparr>rq_status := Declined, rq_declined_by := Some admin,
                               rq_declined_at := Some (now_iso e),
                               rq_declined_reason := (if reason = Some [] then None else reason)\<rparr>
                        else x)
                (schedule_change_requests w)) \<and>
         (\<not> fails e InsertTeacherNotification \<longrightarrow>
            notifications (snd (decline e rid admin reason w)) =
              notifications w @
              [teacher_notification admin r ''Schedule Change Declined'' (declined_message reason)]) \<and>
         (io_registered e \<longrightarrow>
            emitted (snd (decline e rid admin reason w)) =
              emitted w @
              [TeacherNotificationsRefresh (rq_teacher_id r),
               AdminNotificationsRefresh ''schedule_change_declined'' None])"
proof -
  from assms have sel: "select_pending_request e rid w = Inr (Some r)"
    by (rule select_pending_one)
  have msg: "\<forall>s. reason = Some s \<and> s \<noteq> [] \<longrightarrow>
      nt_message
        (teacher_notification admin r ''Schedule Change Declined'' (declined_message reason)) =
        ''Your schedule change request has been declined. Reason: '' @ s"
    by (simp add: teacher_notification_def declined_message_def truthy_def tmpl_def)
  have msg0: "reason = None \<or> reason = Some [] \<longrightarrow>
      nt_message
        (teacher_notification admin r ''Schedule Change Declined'' (declined_message reason)) =
        ''Your schedule change request has been declined.''"
    by (auto simp: teacher_notification_def declined_message_def truthy_def)
  have rest: "res_status (fst (decline e rid admin reason w)) = 200"
    "teacher_schedule_slots (snd (decline e rid admin reason w)) = teacher_schedule_slots w"
    "course_schedule_slots (snd (decline e rid admin reason w)) = course_schedule_slots w"
    "issued w (snd (decline e rid admin reason w)) =
       [MarkDeclinedStmt rid (Some admin) (now_iso e) (if reason = Some [] then None else reason),
        InsertNotificationsStmt
          [teacher_notification admin r ''Schedule Change Declined'' (declined_message reason)]]"
    "nt_recipient_id
       (teacher_notification admin r ''Schedule Change Declined'' (declined_message reason)) =
       rq_teacher_id r"
    using sel
    by (simp_all add: decline_def Let_def mark_declined_world insert_notifications_world
        emit_world respond_def issued_def teacher_notification_def or_null_explicit)
  have tables: "\<not> fails e UpdateRequest \<longrightarrow>
      schedule_change_requests (snd (decline e rid admin reason w)) =
        map (\<lambda>x. if rq_id x = rid
                  then x\<lparr>rq_status := Declined, rq_declined_by := Some admin,
                         rq_declined_at := Some (now_iso e),
                         rq_declined_reason := (if reason = Some [] then None else reason)\<rparr>
                  else x)
          (schedule_change_requests w)"
    "\<not> fails e InsertTeacherNotification \<longrightarrow>
      notifications (snd (decline e rid admin reason w)) =
        notifications w @
        [teacher_notification admin r ''Schedule Change Declined'' (declined_message reason)]"
    "io_registered e \<longrightarrow>
      emitted (snd (decline e rid admin reason w)) =
        emitted w @
        [TeacherNotificationsRefresh (rq_teacher_id r),
         AdminNotificationsRefresh ''schedule_change_declined'' None]"
    using sel
    by (simp_all add: decline_def Let_def mark_declined_world insert_notifications_world
        emit_world or_null_explicit)
  from msg msg0 rest tables show ?thesis by blast
qed

theorem decline_frame_witness:
  "filter (\<lambda>r. rq_id r = ''R1'' \<and> rq_status r = Pending) (schedule_change_requests world1) =
     [req_move] \<and>
   res_status (fst (decline env0 ''R1'' ''A1'' (Some ''instructor unavailable'') world1)) = 200 \<and>
   teacher_schedule_slots (snd (decline env0 ''R1'' ''A1'' (Some ''instructor unavailable'') world1)) =
     [tslot1] \<and>
   course_schedule_slots (snd (decline env0 ''R1'' ''A1'' (Some ''instructor unavailable'') world1)) =
     [cs1] \<and>
   map nt_message
     (notifications (snd (decline env0 ''R1'' ''A1'' (Some ''instructor unavailable'') world1))) =
     [''Your schedule change request has been declined. Reason: instructor unavailable''] \<and>
   map rq_status
     (schedule_change_requests
        (snd (decline env0 ''R1'' ''A1'' (Some ''instructor unavailable'') world1))) =
     [Declined, Pending, Approved] \<and>
   map rq_declined_reason
     (schedule_change_requests
        (snd (decline env0 ''R1'' ''A1'' (Some ''instructor unavailable'') world1))) =
     [Some ''instructor unavailable'', None, None] \<and>
   map rq_declined_by
     (schedule_change_requests
        (snd (decline env0 ''R1'' ''A1'' (Some ''instructor unavailable'') world1))) =
     [Some ''A1'', None, None] \<and>
   map rq_declined_at
     (schedule_change_requests
        (snd (decline env0 ''R1'' ''A1'' (Some ''instructor unavailable'') world1))) =
     [Some ''2026-01-01T00:00:00.000Z'', None, None] \<and>
   issued world1 (snd (decline env0 ''R1'' ''A1'' (Some ''instructor unavailable'') world1)) =
     [MarkDeclinedStmt ''R1'' (Some ''A1'') ''2026-01-01T00:00:00.000Z''
        (Some ''instructor unavailable''),
      InsertNotificationsStmt
        [teacher_notification ''A1'' req_move ''Schedule Change Declined''
           (declined_message (Some ''instructor unavailable''))]] \<and>
   map nt_recipient_id
     (notifications (snd (decline env0 ''R1'' ''A1'' (Some ''instructor unavailable'') world1))) =
     [Some ''T1''] \<and>
   emitted (snd (decline env0 ''R1'' ''A1'' (Some ''instructor unavailable'') world1)) =
     [TeacherNotificationsRefresh (Some ''T1''),
      AdminNotificationsRefresh ''schedule_change_declined'' None]"
proof -
  have h1: "\<not> fails env0 SelectRequest"
    and ok: "\<not> fails env0 UpdateRequest" "\<not> fails env0 InsertTeacherNotification"
      "io_registered env0"
    by (simp_all add: env0_def no_faults_def)
  have h2: "filter (\<lambda>r. rq_id r = ''R1'' \<and> rq_status r = Pending)
      (schedule_change_requests world1) = [req_move]"
    by (simp add: handler_example_defs)
  have v: "teacher_schedule_slots world1 = [tslot1]" "course_schedule_slots world1 = [cs1]"
    "notifications world1 = []" "emitted world1 = []"
    "schedule_change_requests world1 = [req_move, req_plain, req_done]"
    "rq_teacher_id req_move = Some ''T1''"
    "rq_id req_move = ''R1''" "rq_id req_plain = ''R2''" "rq_id req_done = ''R3''"
    "rq_status req_plain = Pending" "rq_status req_done = Approved"
    "rq_declined_reason req_plain = None" "rq_declined_reason req_done = None"
    "rq_declined_by req_plain = None" "rq_declined_by req_done = None"
    "rq_declined_at req_plain = None" "rq_declined_at req_done = None"
    "now_iso env0 = ''2026-01-01T00:00:00.000Z''"
    by (simp_all add: handler_example_defs env0_def)
  from decline_frame [OF h1 h2, of "''A1''" "Some ''instructor unavailable''"] ok h2 v
  show ?thesis by simp
qed

text \<open>
  C9, as stated: a successful submit has no side effect beyond persisting the request
  row. The code does not behave so. The teacher T1 submits a request for the own slot S1
  with the socket server registered: the answer is 200, and besides the insert of the row
  the handler publishes an \<open>admin-notifications-refresh\<close> event, which is pushed to the
  connected admins at once.
\<close>

theorem submit_counterexample:
  "res_status (fst (submit env0 (Some ''T1'') body1 world1)) = 200 \<and>
   emitted world1 = [] \<and>
   emitted (snd (submit env0 (Some ''T1'') body1 world1)) =
     [AdminNotificationsRefresh ''schedule_change_request'' (Some ''T1'')]"
  by (simp add: submit_def select_owned_slot_def maybeSingle_def insert_request_def log_stmt_def
      emit_def respond_def truthy_def tmpl_def Let_def env0_def no_faults_def
      handler_example_defs)

text \<open>
  C9, amended: a successful submit issues exactly one write statement, the insert of the
  request row, which holds the snapshot of a slot the teacher owns and the status pending;
  the row is appended to the requests, no notification row is inserted and no slot table
  changes. Besides that, when the socket server is registered, it publishes one
  \<open>admin-notifications-refresh\<close> event of type \<open>schedule_change_request\<close> with the
  teacher's identifier; it publishes nothing else.
\<close>

theorem submit_effects:
  assumes "res_status (fst (submit e userId body w)) = 200"
  shows "\<exists>slotRow \<in> set (teacher_schedule_slots w).
           ts_id slotRow = tmpl (sb_slotId body) \<and> ts_teacher_id slotRow = userId \<and>
           issued w (snd (submit e userId body w)) =
             [InsertRequestStmt
                (requestData e (tmpl (sb_slotId body)) (tmpl userId) body slotRow)] \<and>
           schedule_change_requests (snd (submit e userId body w)) =
             schedule_change_requests w @
             [requestData e (tmpl (sb_slotId body)) (tmpl userId) body slotRow] \<and>
           rq_status (requestData e (tmpl (sb_slotId body)) (tmpl userId) body slotRow) = Pending \<and>
           notifications (snd (submit e userId body w)) = notifications w \<and>
           teacher_schedule_slots (snd (submit e userId body w)) = teacher_schedule_slots w \<and>
           course_schedule_slots (snd (submit e userId body w)) = course_schedule_slots w \<and>
           emitted (snd (submit e userId body w)) =
             emitted w @
             (if io_registered e
              then [AdminNotificationsRefresh ''schedule_change_request'' userId] else [])"
proof -
  let ?sel = "select_owned_slot e (tmpl (sb_slotId body)) (tmpl userId) w"
  from assms have t: "truthy (sb_slotId body)" "truthy (sb_reason body)" "truthy userId"
    by (auto simp: submit_def respond_def split: if_splits)
  then obtain u where u: "userId = Some u" "tmpl userId = u"
    by (cases userId) (auto simp: truthy_def tmpl_def)
  from assms t obtain slotRow where sel: "?sel = Inr (Some slotRow)"
    by (cases ?sel rule: sum.exhaust; cases "projr ?sel")
       (auto simp: submit_def respond_def server_error_def)
  then have "filter (\<lambda>s. ts_id s = tmpl (sb_slotId body) \<and> ts_teacher_id s = Some u)
      (teacher_schedule_slots w) = [slotRow]"
    using u by (auto simp: select_owned_slot_def maybeSingle_def split: if_splits list.splits)
  then have "slotRow \<in> set (filter (\<lambda>s. ts_id s = tmpl (sb_slotId body) \<and> ts_teacher_id s = Some u)
      (teacher_schedule_slots w))"
    by simp
  then have own: "slotRow \<in> set (teacher_schedule_slots w)" "ts_id slotRow = tmpl (sb_slotId body)"
    "ts_teacher_id slotRow = userId"
    using u by auto
  from assms t sel have ok: "\<not> fails e InsertRequest"
    by (auto simp: submit_def insert_request_def Let_def server_error_def respond_def
        split: if_splits)
  with t sel have
    "issued w (snd (submit e userId body w)) =
       [InsertRequestStmt (requestData e (tmpl (sb_slotId body)) (tmpl userId) body slotRow)]"
    "schedule_change_requests (snd (submit e userId body w)) =
       schedule_change_requests w @
       [requestData e (tmpl (sb_slotId body)) (tmpl userId) body slotRow]"
    "rq_status (requestData e (tmpl (sb_slotId body)) (tmpl userId) body slotRow) = Pending"
    "notifications (snd (submit e userId body w)) = notifications w"
    "teacher_schedule_slots (snd (submit e userId body w)) = teacher_schedule_slots w"
    "course_schedule_slots (snd (submit e userId body w)) = course_schedule_slots w"
    "emitted (snd (submit e userId body w)) =
       emitted w @
       (if io_registered e
        then [AdminNotificationsRefresh ''schedule_change_request'' userId] else [])"
    by (simp_all add: submit_def insert_request_def log_stmt_def emit_def Let_def issued_def
        requestData_def)
  with own show ?thesis by blast
qed

theorem submit_effects_witness:
  "res_status (fst (submit env0 (Some ''T1'') body1 world1)) = 200 \<and>
   (\<exists>slotRow \<in> set (teacher_schedule_slots world1).
      schedule_change_requests (snd (submit env0 (Some ''T1'') body1 world1)) =
        schedule_change_requests world1 @ [requestData env0 ''S1'' ''T1'' body1 slotRow]) \<and>
   notifications (snd (submit env0 (Some ''T1'') body1 world1)) = [] \<and>
   emitted (snd (submit env0 (Some ''T1'') body1 world1)) =
     [AdminNotificationsRefresh ''schedule_change_request'' (Some ''T1'')]"
proof -
  have h: "res_status (fst (submit env0 (Some ''T1'') body1 world1)) = 200"
    by (simp add: submit_def select_owned_slot_def maybeSingle_def insert_request_def
        log_stmt_def emit_def respond_def truthy_def tmpl_def Let_def env0_def no_faults_def
        handler_example_defs)
  have v: "tmpl (sb_slotId body1) = ''S1''" "tmpl (Some ''T1'') = ''T1''"
    "notifications world1 = []" "emitted world1 = []" "io_registered env0"
    by (simp_all add: body1_def tmpl_def world1_def env0_def)
  from submit_effects [OF h] h v show ?thesis by auto
qed

end
